theory Spec2Isabelle
  imports Complex_Main
begin

section \<open>Errors and Python string helpers\<close>

text \<open>
  Exceptions are values. Every constructor stands for an instance of a subclass of
  Python's \<^verbatim>\<open>Exception\<close>: the ones the modelled code raises itself, and
  \<open>Raised msg\<close> for whatever an external collaborator (the sentence-embedding
  model, the language model, a skill's \<^verbatim>\<open>run\<close>, a periodic hook,
  \<^verbatim>\<open>psutil\<close>, \<^verbatim>\<open>input\<close>) raises. Exits that are not
  \<^verbatim>\<open>Exception\<close>s (\<^verbatim>\<open>SystemExit\<close>, \<^verbatim>\<open>KeyboardInterrupt\<close>)
  are outside the model.
\<close>

datatype error =
    IndexError
  | KeyError string
  | ValueError
  | AttributeError
  | Raised string

text \<open>
  A Python \<^verbatim>\<open>str\<close> is modelled by its UTF-8 encoding, a list of bytes. Equality,
  concatenation and containment of strings are those of their encodings, since no
  encoded character begins inside another.
\<close>

fun starts_with :: "string \<Rightarrow> string \<Rightarrow> bool" where
  "starts_with hay [] = True"
| "starts_with [] (n # ns) = False"
| "starts_with (h # hs) (n # ns) = (h = n \<and> starts_with hs ns)"

text \<open>
  The characters that \<^verbatim>\<open>str.strip()\<close> and \<^verbatim>\<open>str.split()\<close> take for
  whitespace, encoded: U+0009 to U+000D, U+001C to U+0020, U+0085, U+00A0, U+1680,
  U+2000 to U+200A, U+2028, U+2029, U+202F, U+205F and U+3000.
\<close>

definition WHITESPACE :: "string list" where
  "WHITESPACE =
     [[CHR 0x09], [CHR 0x0A], [CHR 0x0B], [CHR 0x0C], [CHR 0x0D],
      [CHR 0x1C], [CHR 0x1D], [CHR 0x1E], [CHR 0x1F], [CHR 0x20],
      [CHR 0xC2, CHR 0x85], [CHR 0xC2, CHR 0xA0], [CHR 0xE1, CHR 0x9A, CHR 0x80],
      [CHR 0xE2, CHR 0x80, CHR 0x80], [CHR 0xE2, CHR 0x80, CHR 0x81],
      [CHR 0xE2, CHR 0x80, CHR 0x82], [CHR 0xE2, CHR 0x80, CHR 0x83],
      [CHR 0xE2, CHR 0x80, CHR 0x84], [CHR 0xE2, CHR 0x80, CHR 0x85],
      [CHR 0xE2, CHR 0x80, CHR 0x86], [CHR 0xE2, CHR 0x80, CHR 0x87],
      [CHR 0xE2, CHR 0x80, CHR 0x88], [CHR 0xE2, CHR 0x80, CHR 0x89],
      [CHR 0xE2, CHR 0x80, CHR 0x8A], [CHR 0xE2, CHR 0x80, CHR 0xA8],
      [CHR 0xE2, CHR 0x80, CHR 0xA9], [CHR 0xE2, CHR 0x80, CHR 0xAF],
      [CHR 0xE2, CHR 0x81, CHR 0x9F], [CHR 0xE3, CHR 0x80, CHR 0x80]]"

text \<open>The length of the pattern of \<open>pats\<close> that \<open>s\<close> begins with, 0 when there is none.\<close>

definition ws_len :: "string list \<Rightarrow> string \<Rightarrow> nat" where
  "ws_len pats s = (case find (starts_with s) pats of None \<Rightarrow> 0 | Some w \<Rightarrow> length w)"

text \<open>Drop the patterns of \<open>pats\<close> from the front of \<open>s\<close> for as long as there is one.\<close>

function lstrip_in :: "string list \<Rightarrow> string \<Rightarrow> string" where
  "lstrip_in pats s =
     (if ws_len pats s = 0 then s else lstrip_in pats (drop (ws_len pats s) s))"
  by pat_completeness auto
termination
proof (relation "measure (\<lambda>(pats, s). length s)")
  show "wf (measure (\<lambda>(pats, s). length s))" by simp
next
  fix pats :: "string list" and s :: string
  assume nz: "ws_len pats s \<noteq> 0"
  have sw: "starts_with x w \<Longrightarrow> length w \<le> length x" for x w
    by (induction x w rule: starts_with.induct) auto
  have "ws_len pats s \<le> length s"
    by (auto simp: ws_len_def find_Some_iff sw split: option.splits)
  with nz show "((pats, drop (ws_len pats s) s), (pats, s)) \<in> measure (\<lambda>(pats, s). length s)"
    by simp
qed

declare lstrip_in.simps [simp del]

text \<open>\<^verbatim>\<open>s.strip()\<close>: whitespace dropped at both ends.\<close>

definition lstrip :: "string \<Rightarrow> string" where
  "lstrip s = lstrip_in WHITESPACE s"

definition rstrip :: "string \<Rightarrow> string" where
  "rstrip s = rev (lstrip_in (map rev WHITESPACE) (rev s))"

definition strip :: "string \<Rightarrow> string" where
  "strip s = rstrip (lstrip s)"

text \<open>
  \<^verbatim>\<open>s.strip(chars)\<close> for a set \<open>p\<close> of ASCII characters: they are dropped at both
  ends.
\<close>

definition strip_chars :: "(char \<Rightarrow> bool) \<Rightarrow> string \<Rightarrow> string" where
  "strip_chars p s = rev (dropWhile p (rev (dropWhile p s)))"

text \<open>
  \<^verbatim>\<open>s.split()\<close>: the maximal runs without whitespace. \<open>cur\<close> is the run read so
  far.
\<close>

function split_ws :: "string \<Rightarrow> string \<Rightarrow> string list" where
  "split_ws cur s =
     (if s = [] then (if cur = [] then [] else [cur])
      else if ws_len WHITESPACE s = 0 then split_ws (cur @ [hd s]) (tl s)
      else (if cur = [] then [] else [cur]) @ split_ws [] (drop (ws_len WHITESPACE s) s))"
  by pat_completeness auto
termination
proof (relation "measure (\<lambda>(cur, s). length s)")
  show "wf (measure (\<lambda>(cur, s). length s))" by simp
next
  fix cur s :: string
  assume "s \<noteq> []"
  then show "((cur @ [hd s], tl s), (cur, s)) \<in> measure (\<lambda>(cur, s). length s)"
    by simp
next
  fix cur s :: string
  assume "s \<noteq> []" and "ws_len WHITESPACE s \<noteq> 0"
  then show "(([], drop (ws_len WHITESPACE s) s), (cur, s)) \<in> measure (\<lambda>(cur, s). length s)"
    by simp
qed

declare split_ws.simps [simp del]

definition py_split :: "string \<Rightarrow> string list" where
  "py_split s = split_ws [] s"

text \<open>\<^verbatim>\<open>needle in hay\<close> on strings: a contiguous occurrence.\<close>

fun str_in :: "string \<Rightarrow> string \<Rightarrow> bool" where
  "str_in needle [] = (needle = [])"
| "str_in needle (h # hs) = (starts_with (h # hs) needle \<or> str_in needle hs)"

text \<open>\<^verbatim>\<open>sep.join(xs)\<close>.\<close>

fun join :: "string \<Rightarrow> string list \<Rightarrow> string" where
  "join sep [] = []"
| "join sep [x] = x"
| "join sep (x # y # ys) = x @ sep @ join sep (y # ys)"

text \<open>
  Three builtins read the Unicode character database, which is no part of the
  repository: \<^verbatim>\<open>str.lower()\<close>, \<^verbatim>\<open>int(s)\<close> on a string (\<open>None\<close> stands for
  ValueError) and the search \<^verbatim>\<open>re.search(rf"\b{re.escape(kw)}\b", text)\<close> for
  \<open>kw\<close> between word boundaries. They are parameters of the model.
\<close>

record builtins =
  str_lower :: "string \<Rightarrow> string"
  str_to_int :: "string \<Rightarrow> int option"
  re_word_search :: "string \<Rightarrow> string \<Rightarrow> bool"

section \<open>Intent judge (brain/intent\_judge.py)\<close>

definition HIGH_CONFIDENCE :: real where
  "HIGH_CONFIDENCE = 0.70"

definition MEDIUM_CONFIDENCE :: real where
  "MEDIUM_CONFIDENCE = 0.50"

definition AMBIGUITY_MARGIN :: real where
  "AMBIGUITY_MARGIN = 0.07"

text \<open>The keys of \<^verbatim>\<open>INTENTS\<close>, in the order the dict literal lists them.\<close>

definition INTENT_NAMES :: "string list" where
  "INTENT_NAMES =
     [''app_pilot'', ''music_skill'', ''camera_skill'', ''weather_sentinel'', ''clock'',
      ''file_commander'', ''email_skill'', ''web_researcher'', ''reminder_skill'',
      ''smart_home'', ''system_sentinel'', ''wifi_scanner'', ''osint_investigator'',
      ''location_sentinel'', ''greet'']"

definition IMPERATIVE_VERBS :: "string list" where
  "IMPERATIVE_VERBS =
     [''open'', ''launch'', ''start'', ''play'', ''search'', ''watch'', ''stream'',
      ''type'', ''move'', ''delete'', ''rename'', ''copy'']"

text \<open>
  The dict \<^verbatim>\<open>detect_intent\<close> returns. The key \<^verbatim>\<open>action\<close> is always
  there; each other key is \<open>None\<close> when the dict does not have it.
\<close>

record intent_result =
  action :: string
  intent :: "string option"
  confidence :: "real option"
  candidates :: "string list option"

definition none_result :: intent_result where
  "none_result = \<lparr>action = ''none'', intent = None, confidence = None, candidates = None\<rparr>"

text \<open>
  \<^verbatim>\<open>round(x, 3)\<close>, on the reals: the nearest multiple of one thousandth, a tie
  going to the even one. Scores are Python floats; the model takes them as reals.
\<close>

definition round3 :: "real \<Rightarrow> real" where
  "round3 x =
     (let y = x * 1000; f = \<lfloor>y\<rfloor>; d = y - of_int f
      in of_int (if d < 1 / 2 then f else if 1 / 2 < d then f + 1
                 else if even f then f else f + 1) / 1000)"

text \<open>
  Lines 227 to 268 of \<^verbatim>\<open>detect_intent\<close>: the decision taken on the sorted score
  list. \<^verbatim>\<open>scores[0]\<close> raises IndexError on an empty list.
\<close>

definition arbitrate :: "(string \<times> real) list \<Rightarrow> error + intent_result" where
  "arbitrate scores =
     (case scores of
        [] \<Rightarrow> Inl IndexError
      | (top_intent, top_score) # others \<Rightarrow>
          (let close_matches =
                 map fst (filter (\<lambda>(i, score). \<bar>top_score - score\<bar> \<le> AMBIGUITY_MARGIN) others)
           in if close_matches \<noteq> [] \<and> MEDIUM_CONFIDENCE \<le> top_score then
                Inr \<lparr>action = ''clarify'', intent = Some top_intent,
                     confidence = Some (round3 top_score),
                     candidates = Some (top_intent # close_matches)\<rparr>
              else if HIGH_CONFIDENCE \<le> top_score then
                Inr \<lparr>action = ''execute'', intent = Some top_intent,
                     confidence = Some (round3 top_score), candidates = None\<rparr>
              else if MEDIUM_CONFIDENCE \<le> top_score then
                Inr \<lparr>action = ''confirm'', intent = Some top_intent,
                     confidence = Some (round3 top_score), candidates = None\<rparr>
              else Inr none_result))"

text \<open>
  The external collaborators of \<^verbatim>\<open>detect_intent\<close>, as parameters:
  the FlashText \<^verbatim>\<open>keyword_processor.extract_keywords\<close>, \<^verbatim>\<open>model.encode\<close>,
  and \<^verbatim>\<open>util.cos_sim(text_emb, INTENT_EMBEDDINGS[intent]).max().item()\<close> for an
  intent name. The last two can raise.
\<close>

record 'v judge_model =
  extract_keywords :: "string \<Rightarrow> string list"
  encode :: "string \<Rightarrow> error + 'v"
  cos_sim_max :: "'v \<Rightarrow> string \<Rightarrow> error + real"

text \<open>The scoring loop over \<^verbatim>\<open>INTENT_EMBEDDINGS.items()\<close>.\<close>

fun score_intents :: "'v judge_model \<Rightarrow> 'v \<Rightarrow> string list \<Rightarrow> error + (string \<times> real) list" where
  "score_intents m emb [] = Inr []"
| "score_intents m emb (i # is) =
     (case cos_sim_max m emb i of
        Inl e \<Rightarrow> Inl e
      | Inr score \<Rightarrow>
          (case score_intents m emb is of
             Inl e \<Rightarrow> Inl e
           | Inr rest \<Rightarrow> Inr ((i, score) # rest)))"

text \<open>Lines 218 to 223: embed the text, then score every intent.\<close>

definition score_text :: "'v judge_model \<Rightarrow> string \<Rightarrow> error + (string \<times> real) list" where
  "score_text m text =
     (case encode m text of
        Inl e \<Rightarrow> Inl e
      | Inr text_emb \<Rightarrow> score_intents m text_emb INTENT_NAMES)"

text \<open>
  The keyword and verb gate (lines 208 to 212): \<open>True\<close> when the text is let through
  to the embedding model. \<^verbatim>\<open>text.split()[0]\<close> raises IndexError when there is no word.
\<close>

definition gate :: "'v judge_model \<Rightarrow> string \<Rightarrow> error + bool" where
  "gate m text =
     (let kws = extract_keywords m text
      in case py_split text of
           [] \<Rightarrow> Inl IndexError
         | first_word # _ \<Rightarrow> Inr (\<not> (kws = [] \<and> first_word \<notin> set IMPERATIVE_VERBS)))"

text \<open>
  \<^verbatim>\<open>scores.sort(key=lambda x: x[1], reverse=True)\<close> is a stable sort by descending
  score, as \<open>sort_key\<close> on the negated score is.
\<close>

definition detect_intent ::
  "builtins \<Rightarrow> 'v judge_model \<Rightarrow> string \<Rightarrow> error + intent_result" where
  "detect_intent py m raw =
     (let text = strip (str_lower py raw)
      in if text = [] then Inr none_result
         else (case gate m text of
                 Inl e \<Rightarrow> Inl e
               | Inr False \<Rightarrow> Inr none_result
               | Inr True \<Rightarrow>
                   (case score_text m text of
                      Inl e \<Rightarrow> Inl e
                    | Inr scores \<Rightarrow> arbitrate (sort_key (\<lambda>x. - snd x) scores))))"

section \<open>Skills and the record of calls\<close>

text \<open>
  Skills are objects with mutable state of their own, and the code under study calls
  them, the language model, the console and \<^verbatim>\<open>psutil\<close>. The state all of these
  share is a value of type \<open>'w\<close>; every call takes it and returns the new one. The
  second component of a \<open>world\<close> is the list of the calls made so far, oldest first.
  Only the functions of this theory append to it; a skill sees the first component only.
\<close>

datatype event =
    CheckRequirements string
  | RunSkill string
  | CallHook string string
  | CallLLM
  | ReadInput
  | PrintLLMFailed error
  | PrintChoices
  | PrintInvalidChoice
  | PrintSkillFailed error
  | PrintMonitorError error
  | Sleep nat

type_synonym 'w world = "'w \<times> event list"

text \<open>
  The dict handed to \<^verbatim>\<open>run\<close>. A key that is absent, or present with the value
  \<^verbatim>\<open>None\<close>, is \<open>None\<close>.
\<close>

record run_args =
  arg_user_input :: string
  arg_intent :: "string option"
  arg_confidence :: "real option"
  arg_entities :: "(string \<times> string) list option"

text \<open>
  A skill object: \<^verbatim>\<open>check_requirements()\<close> returns the pair
  \<^verbatim>\<open>(can_run, msg)\<close>, \<^verbatim>\<open>run(parameters)\<close> returns a string or
  \<^verbatim>\<open>None\<close>, and \<open>hooks h\<close> is the callable attribute of name \<open>h\<close>, if the
  object has one. Each can raise. \<open>class_name\<close> is
  \<^verbatim>\<open>instance.__class__.__name__\<close>; events name the object by it. The base class
  \<^verbatim>\<open>core.base_skill.Skill\<close> is not among the sources, so the methods are fields.
\<close>

record 'w skill_instance =
  class_name :: string
  check_requirements :: "'w \<Rightarrow> (error + bool \<times> string) \<times> 'w"
  run :: "run_args \<Rightarrow> 'w \<Rightarrow> (error + string option) \<times> 'w"
  hooks :: "string \<Rightarrow> ('w \<Rightarrow> (error + unit) \<times> 'w) option"

text \<open>
  An entry of \<^verbatim>\<open>SkillManager.skills\<close>. \<^verbatim>\<open>load_skills\<close> stores the keys
  instance (\<open>instance_obj\<close>), name, keywords (\<open>skill_keywords\<close>) and
  supported\_intents; it stores no description, which
  the arbitrator reads, so that key is optional here. The instance is optional
  because the monitor and the bridge test it (\<^verbatim>\<open>if not instance\<close>).
\<close>

record 'w skill =
  instance_obj :: "'w skill_instance option"
  name :: string
  skill_keywords :: "string list"
  supported_intents :: "string list"
  description :: "string option"

text \<open>Method calls on an instance; on \<^verbatim>\<open>None\<close> the attribute lookup raises.\<close>

definition call_check_requirements ::
  "'w skill_instance option \<Rightarrow> 'w world \<Rightarrow> (error + bool \<times> string) \<times> 'w world" where
  "call_check_requirements inst w =
     (case inst of
        None \<Rightarrow> (Inl AttributeError, w)
      | Some i \<Rightarrow>
          (case check_requirements i (fst w) of
             (r, s') \<Rightarrow> (r, (s', snd w @ [CheckRequirements (class_name i)]))))"

definition call_run ::
  "'w skill_instance option \<Rightarrow> run_args \<Rightarrow> 'w world \<Rightarrow> (error + string option) \<times> 'w world" where
  "call_run inst args w =
     (case inst of
        None \<Rightarrow> (Inl AttributeError, w)
      | Some i \<Rightarrow>
          (case run i args (fst w) of
             (r, s') \<Rightarrow> (r, (s', snd w @ [RunSkill (class_name i)]))))"

section \<open>Dispatcher (skill\_manager.py, SkillManager.run\_skill)\<close>

definition warning_sign :: string where
  "warning_sign = [CHR 0xE2, CHR 0x9A, CHR 0xA0, CHR 0xEF, CHR 0xB8, CHR 0x8F]"

definition thinking_face :: string where
  "thinking_face = [CHR 0xF0, CHR 0x9F, CHR 0xA4, CHR 0x94]"

definition question_mark :: string where
  "question_mark = [CHR 0xE2, CHR 0x9D, CHR 0x93]"

text \<open>How an f-string prints an optional string.\<close>

definition fmt :: "string option \<Rightarrow> string" where
  "fmt x = (case x of None \<Rightarrow> ''None'' | Some s \<Rightarrow> s)"

definition in_opt :: "string option \<Rightarrow> string list \<Rightarrow> bool" where
  "in_opt x xs = (case x of None \<Rightarrow> False | Some s \<Rightarrow> s \<in> set xs)"

text \<open>
  The loop over \<^verbatim>\<open>matches\<close> (lines 129 to 142). \<open>Inr None\<close>: the loop ran out;
  \<open>Inr (Some result)\<close>: a skill's result was returned; \<open>Inl e\<close>: a call raised, and
  nothing in \<^verbatim>\<open>run_skill\<close> catches it.
\<close>

fun try_matches ::
  "'w skill_instance option list \<Rightarrow> run_args \<Rightarrow> 'w world \<Rightarrow> (error + string option) \<times> 'w world" where
  "try_matches [] args w = (Inr None, w)"
| "try_matches (inst # rest) args w =
     (case call_check_requirements inst w of
        (Inl e, w1) \<Rightarrow> (Inl e, w1)
      | (Inr (can_run, msg), w1) \<Rightarrow>
          if \<not> can_run then try_matches rest args w1
          else (case call_run inst args w1 of
                  (Inl e, w2) \<Rightarrow> (Inl e, w2)
                | (Inr None, w2) \<Rightarrow> try_matches rest args w2
                | (Inr (Some result), w2) \<Rightarrow> (Inr (Some result), w2)))"

text \<open>
  The two loops that run when no intent result is given. A loop that returns from
  inside yields \<open>Some\<close> of the returned value; \<open>None\<close> means it fell through.
\<close>

fun exact_name_loop ::
  "builtins \<Rightarrow> 'w skill list \<Rightarrow> string \<Rightarrow> run_args \<Rightarrow> 'w world
     \<Rightarrow> (error + string option option) \<times> 'w world" where
  "exact_name_loop py [] ui args w = (Inr None, w)"
| "exact_name_loop py (s # ss) ui args w =
     (if str_lower py ui = str_lower py (name s) then
        (case call_check_requirements (instance_obj s) w of
           (Inl e, w1) \<Rightarrow> (Inl e, w1)
         | (Inr (can_run, msg), w1) \<Rightarrow>
             if can_run then
               (case call_run (instance_obj s) args w1 of
                  (Inl e, w2) \<Rightarrow> (Inl e, w2)
                | (Inr r, w2) \<Rightarrow> (Inr (Some r), w2))
             else exact_name_loop py ss ui args w1)
      else exact_name_loop py ss ui args w)"

fun keyword_loop ::
  "builtins \<Rightarrow> 'w skill_instance option \<Rightarrow> string list \<Rightarrow> string \<Rightarrow> run_args \<Rightarrow> 'w world
     \<Rightarrow> (error + string option option) \<times> 'w world" where
  "keyword_loop py inst [] ui args w = (Inr None, w)"
| "keyword_loop py inst (kw # kws) ui args w =
     (if re_word_search py (str_lower py kw) (str_lower py ui) then
        (case call_check_requirements inst w of
           (Inl e, w1) \<Rightarrow> (Inl e, w1)
         | (Inr (can_run, msg), w1) \<Rightarrow>
             if can_run then
               (case call_run inst args w1 of
                  (Inl e, w2) \<Rightarrow> (Inl e, w2)
                | (Inr r, w2) \<Rightarrow> (Inr (Some r), w2))
             else keyword_loop py inst kws ui args w1)
      else keyword_loop py inst kws ui args w)"

fun keyword_fallback ::
  "builtins \<Rightarrow> 'w skill list \<Rightarrow> string \<Rightarrow> run_args \<Rightarrow> 'w world
     \<Rightarrow> (error + string option option) \<times> 'w world" where
  "keyword_fallback py [] ui args w = (Inr None, w)"
| "keyword_fallback py (s # ss) ui args w =
     (case keyword_loop py (instance_obj s) (skill_keywords s) ui args w of
        (Inl e, w1) \<Rightarrow> (Inl e, w1)
      | (Inr (Some r), w1) \<Rightarrow> (Inr (Some r), w1)
      | (Inr None, w1) \<Rightarrow> keyword_fallback py ss ui args w1)"

text \<open>The string returned when the loop over the matches runs out (line 144).\<close>

definition no_skill_message :: "string option \<Rightarrow> string" where
  "no_skill_message i =
     warning_sign @ '' No skill could execute intent '' @ [CHR 0x27] @ fmt i @ [CHR 0x27] @ ''.''"

text \<open>
  \<^verbatim>\<open>run_skill(user_input, intent_result, entities)\<close> on the registry \<open>skills\<close>.
  The result is the returned string or \<^verbatim>\<open>None\<close>, or the exception that escapes.
\<close>

definition run_skill ::
  "builtins \<Rightarrow> 'w skill list \<Rightarrow> string \<Rightarrow> intent_result option
     \<Rightarrow> (string \<times> string) list option \<Rightarrow> 'w world \<Rightarrow> (error + string option) \<times> 'w world" where
  "run_skill py skills ui intent_result ents w =
     (case intent_result of
        Some ir \<Rightarrow>
          (let conf = (case confidence ir of None \<Rightarrow> 0 | Some c \<Rightarrow> c);
               cands = (case candidates ir of None \<Rightarrow> [] | Some cs \<Rightarrow> cs)
           in if action ir = ''none'' then (Inr None, w)
              else if action ir = ''clarify'' then
                (Inr (Some (thinking_face @ '' I found multiple possible actions: ''
                             @ join '', '' cands @ ''. Which one should I run?'')), w)
              else if action ir = ''confirm'' then
                (Inr (Some (question_mark @ '' Do you want me to run ''
                             @ [CHR 0x27] @ fmt (intent ir) @ [CHR 0x27] @ ''? (yes / no)'')), w)
              else if action ir \<noteq> ''execute'' then (Inr None, w)
              else
                (let matches =
                       map instance_obj (filter (\<lambda>s. in_opt (intent ir) (supported_intents s)) skills)
                 in if matches = [] then
                      (Inr (Some (warning_sign @ '' Intent '' @ [CHR 0x27] @ fmt (intent ir)
                                   @ [CHR 0x27] @ '' has no mapped skills.'')), w)
                    else
                      (case try_matches matches
                              \<lparr>arg_user_input = ui, arg_intent = intent ir,
                               arg_confidence = Some conf, arg_entities = ents\<rparr> w of
                         (Inr None, w1) \<Rightarrow> (Inr (Some (no_skill_message (intent ir))), w1)
                       | other \<Rightarrow> other)))
      | None \<Rightarrow>
          (let args = \<lparr>arg_user_input = ui, arg_intent = None,
                       arg_confidence = None, arg_entities = ents\<rparr>
           in case exact_name_loop py skills ui args w of
                (Inl e, w1) \<Rightarrow> (Inl e, w1)
              | (Inr (Some r), w1) \<Rightarrow> (Inr r, w1)
              | (Inr None, w1) \<Rightarrow>
                  (case keyword_fallback py skills ui args w1 of
                     (Inl e, w2) \<Rightarrow> (Inl e, w2)
                   | (Inr (Some r), w2) \<Rightarrow> (Inr r, w2)
                   | (Inr None, w2) \<Rightarrow> (Inr None, w2))))"

section \<open>Fallback arbitrator (brain/arbitrator.py, SkillArbitrator.select\_skill)\<close>

definition emit :: "event \<Rightarrow> 'w world \<Rightarrow> 'w world" where
  "emit ev w = (fst w, snd w @ [ev])"

text \<open>
  The collaborators of the arbitrator: \<^verbatim>\<open>run_llm(prompt, task_type="skill_routing")\<close>
  on the list of (role, content) messages, and the console's \<^verbatim>\<open>input(prompt)\<close>.
\<close>

record 'w arbiter_io =
  run_llm :: "(string \<times> string) list \<Rightarrow> 'w \<Rightarrow> (error + string) \<times> 'w"
  console_input :: "string \<Rightarrow> 'w \<Rightarrow> (error + string) \<times> 'w"

definition call_llm ::
  "'w arbiter_io \<Rightarrow> (string \<times> string) list \<Rightarrow> 'w world \<Rightarrow> (error + string) \<times> 'w world" where
  "call_llm io prompt w =
     (case run_llm io prompt (fst w) of (r, s') \<Rightarrow> (r, (s', snd w @ [CallLLM])))"

definition call_input :: "'w arbiter_io \<Rightarrow> string \<Rightarrow> 'w world \<Rightarrow> (error + string) \<times> 'w world" where
  "call_input io prompt w =
     (case console_input io prompt (fst w) of (r, s') \<Rightarrow> (r, (s', snd w @ [ReadInput])))"

text \<open>
  \<^verbatim>\<open>f"- {s['name']}: {s['description']}"\<close> for every candidate; a dict without the
  key raises KeyError.
\<close>

fun describe_all :: "'w skill list \<Rightarrow> error + string list" where
  "describe_all [] = Inr []"
| "describe_all (s # ss) =
     (case description s of
        None \<Rightarrow> Inl (KeyError ''description'')
      | Some d \<Rightarrow>
          (case describe_all ss of
             Inl e \<Rightarrow> Inl e
           | Inr rest \<Rightarrow> Inr ((''- '' @ name s @ '': '' @ d) # rest)))"

definition arbiter_prompt :: "string \<Rightarrow> string list \<Rightarrow> (string \<times> string) list" where
  "arbiter_prompt ui descriptions =
     [(''system'',
       ''You are a tool arbitrator. The user input may match multiple skills. ''
       @ ''Return ONLY the exact skill name that best fits the user'' @ [CHR 0x27]
       @ ''s intent.''),
      (''user'',
       ''User input: '' @ ui @ [CHR 0x0A] @ ''Available skills:'' @ [CHR 0x0A]
       @ join [CHR 0x0A] descriptions)]"

text \<open>
  Step 7: run the selected skill; an exception of \<^verbatim>\<open>run\<close> is caught here,
  printed, and \<^verbatim>\<open>None\<close> is returned.
\<close>

definition run_selected ::
  "'w skill \<Rightarrow> string \<Rightarrow> 'w world \<Rightarrow> (error + string option) \<times> 'w world" where
  "run_selected s ui w =
     (case call_run (instance_obj s)
             \<lparr>arg_user_input = ui, arg_intent = None, arg_confidence = None,
              arg_entities = None\<rparr> w of
        (Inl e, w1) \<Rightarrow> (Inr None, emit (PrintSkillFailed e) w1)
      | (Inr r, w1) \<Rightarrow> (Inr r, w1))"

text \<open>
  Step 6: the numbered list is printed, one line is read, and the number picks the
  candidate. \<^verbatim>\<open>input\<close> is outside the \<^verbatim>\<open>try\<close>, so its exception escapes.
\<close>

definition ask_user ::
  "builtins \<Rightarrow> 'w arbiter_io \<Rightarrow> 'w skill list \<Rightarrow> string \<Rightarrow> 'w world
     \<Rightarrow> (error + string option) \<times> 'w world" where
  "ask_user py io cands ui w =
     (case call_input io ''Enter the number of the desired skill: '' (emit PrintChoices w) of
        (Inl e, w1) \<Rightarrow> (Inl e, w1)
      | (Inr line, w1) \<Rightarrow>
          (case str_to_int py (strip line) of
             None \<Rightarrow> (Inr None, emit PrintInvalidChoice w1)
           | Some n \<Rightarrow>
               (let choice_idx = n - 1
                in if 0 \<le> choice_idx \<and> choice_idx < int (length cands)
                   then run_selected (cands ! nat choice_idx) ui w1
                   else (Inr None, w1))))"

text \<open>
  \<^verbatim>\<open>select_skill(user_input)\<close> on the registry \<open>skills\<close>. The call of
  \<^verbatim>\<open>skill_bridge._find_skill_by_keywords\<close> at its start computes a value that is
  never read and changes nothing, and is left out. \<open>keyword_candidates\<close> is step 2,
  the candidates by keyword containment.
\<close>

definition keyword_candidates :: "builtins \<Rightarrow> 'w skill list \<Rightarrow> string \<Rightarrow> 'w skill list" where
  "keyword_candidates py skills ui =
     (let clean_input = strip_chars (\<lambda>c. c \<in> set ''?!. '') (str_lower py ui)
      in filter (\<lambda>s. list_ex (\<lambda>word. str_in (str_lower py word) clean_input)
                      (skill_keywords s))
           skills)"

definition select_skill ::
  "builtins \<Rightarrow> 'w arbiter_io \<Rightarrow> 'w skill list \<Rightarrow> string \<Rightarrow> 'w world
     \<Rightarrow> (error + string option) \<times> 'w world" where
  "select_skill py io skills ui w =
     (let cands = keyword_candidates py skills ui
      in case cands of
           [] \<Rightarrow> (Inr None, w)
         | [c] \<Rightarrow>
             call_run (instance_obj c)
               \<lparr>arg_user_input = ui, arg_intent = None, arg_confidence = None,
                arg_entities = None\<rparr> w
         | _ # _ # _ \<Rightarrow>
             (case describe_all cands of
                Inl e \<Rightarrow> (Inl e, w)
              | Inr descriptions \<Rightarrow>
                  (let (decision, w1) =
                         (case call_llm io (arbiter_prompt ui descriptions) w of
                            (Inl e, w') \<Rightarrow> ([], emit (PrintLLMFailed e) w')
                          | (Inr d, w') \<Rightarrow> (strip d, w'))
                   in case find (\<lambda>s. str_in (str_lower py (name s)) (str_lower py decision))
                             cands of
                        Some s \<Rightarrow> run_selected s ui w1
                      | None \<Rightarrow> ask_user py io cands ui w1)))"

section \<open>Background monitor (brain/brain.py, CrystalBrain.\_background\_monitor)\<close>

definition HOOK_NAMES :: "string list" where
  "HOOK_NAMES = [''check_queue_loop'', ''price_monitor'', ''weather_monitor'', ''reminder_monitor'']"

definition call_hook ::
  "string \<Rightarrow> string \<Rightarrow> ('w \<Rightarrow> (error + unit) \<times> 'w) \<Rightarrow> 'w world \<Rightarrow> (error + unit) \<times> 'w world" where
  "call_hook cls h fn w =
     (case fn (fst w) of (r, s') \<Rightarrow> (r, (s', snd w @ [CallHook cls h])))"

text \<open>The inner loop over the four hook names, for one instance.\<close>

fun run_hooks :: "'w skill_instance \<Rightarrow> string list \<Rightarrow> 'w world \<Rightarrow> (error + unit) \<times> 'w world" where
  "run_hooks i [] w = (Inr (), w)"
| "run_hooks i (h # hs) w =
     (case hooks i h of
        None \<Rightarrow> run_hooks i hs w
      | Some fn \<Rightarrow>
          (case call_hook (class_name i) h fn w of
             (Inl e, w1) \<Rightarrow> (Inl e, w1)
           | (Inr u, w1) \<Rightarrow> run_hooks i hs w1))"

text \<open>The outer loop over \<^verbatim>\<open>self.skill_manager.skills\<close>.\<close>

fun tick_skills :: "'w skill list \<Rightarrow> 'w world \<Rightarrow> (error + unit) \<times> 'w world" where
  "tick_skills [] w = (Inr (), w)"
| "tick_skills (s # ss) w =
     (case instance_obj s of
        None \<Rightarrow> tick_skills ss w
      | Some i \<Rightarrow>
          (case run_hooks i HOOK_NAMES w of
             (Inl e, w1) \<Rightarrow> (Inl e, w1)
           | (Inr u, w1) \<Rightarrow> tick_skills ss w1))"

text \<open>
  One pass of the loop body: the \<^verbatim>\<open>try\<close> block and its handler.
  \<open>cpu_percent\<close> is \<^verbatim>\<open>psutil.cpu_percent()\<close>.
\<close>

definition monitor_cycle ::
  "('w \<Rightarrow> (error + real) \<times> 'w) \<Rightarrow> 'w skill list \<Rightarrow> 'w world \<Rightarrow> 'w world" where
  "monitor_cycle cpu_percent skills w =
     (case cpu_percent (fst w) of
        (Inl e, s1) \<Rightarrow> emit (Sleep 10) (emit (PrintMonitorError e) (s1, snd w))
      | (Inr load, s1) \<Rightarrow>
          if 90 < load then emit (Sleep 10) (s1, snd w)
          else (case tick_skills skills (s1, snd w) of
                  (Inl e, w2) \<Rightarrow> emit (Sleep 10) (emit (PrintMonitorError e) w2)
                | (Inr u, w2) \<Rightarrow> emit (Sleep 5) w2))"

text \<open>
  The \<^verbatim>\<open>while self.monitor_active\<close> loop. Another thread clears the flag, so the
  values the loop test reads are an input: the list \<open>flags\<close>, one per test. With the
  list used up the loop is still running (\<open>Looping\<close>); \<open>Returned\<close> means the
  function has returned.
\<close>

datatype loop_status = Looping | Returned

fun background_monitor ::
  "bool list \<Rightarrow> ('w \<Rightarrow> (error + real) \<times> 'w) \<Rightarrow> 'w skill list \<Rightarrow> 'w world
     \<Rightarrow> loop_status \<times> 'w world" where
  "background_monitor [] cpu_percent skills w = (Looping, w)"
| "background_monitor (monitor_active # flags) cpu_percent skills w =
     (if monitor_active
      then background_monitor flags cpu_percent skills (monitor_cycle cpu_percent skills w)
      else (Returned, w))"

section \<open>The builtins on ASCII strings\<close>

text \<open>
  On a string of ASCII characters the three builtins need no table, and the functions
  of this section are what they compute there. On other strings they are not Python's
  builtins. Only the concrete runs below use them, all on ASCII input; no property is
  stated of them.
\<close>

definition ascii_lower_char :: "char \<Rightarrow> char" where
  "ascii_lower_char c =
     (case map_of (zip ''ABCDEFGHIJKLMNOPQRSTUVWXYZ'' ''abcdefghijklmnopqrstuvwxyz'') c of
        None \<Rightarrow> c
      | Some l \<Rightarrow> l)"

definition ascii_lower :: "string \<Rightarrow> string" where
  "ascii_lower s = map ascii_lower_char s"

text \<open>
  The search for \<open>kw\<close> between word boundaries, on ASCII text: an occurrence of
  \<open>kw\<close> with a boundary on each side, where a boundary lies between a word
  character and a non-word character or an end of the text.
\<close>

definition is_word_char :: "char \<Rightarrow> bool" where
  "is_word_char c \<longleftrightarrow>
     c \<in> set ''abcdefghijklmnopqrstuvwxyzABCDEFGHIJKLMNOPQRSTUVWXYZ0123456789_''"

definition word_opt :: "char option \<Rightarrow> bool" where
  "word_opt c = (case c of None \<Rightarrow> False | Some x \<Rightarrow> is_word_char x)"

definition first_char :: "string \<Rightarrow> char option" where
  "first_char s = (case s of [] \<Rightarrow> None | c # _ \<Rightarrow> Some c)"

definition match_here :: "char option \<Rightarrow> string \<Rightarrow> string \<Rightarrow> bool" where
  "match_here prev kw text \<longleftrightarrow>
     word_opt prev \<noteq> word_opt (first_char text) \<and> starts_with text kw \<and>
     word_opt (if kw = [] then prev else Some (last kw))
       \<noteq> word_opt (first_char (drop (length kw) text))"

fun search_from :: "char option \<Rightarrow> string \<Rightarrow> string \<Rightarrow> bool" where
  "search_from prev kw [] = match_here prev kw []"
| "search_from prev kw (c # cs) = (match_here prev kw (c # cs) \<or> search_from (Some c) kw cs)"

definition ascii_word_search :: "string \<Rightarrow> string \<Rightarrow> bool" where
  "ascii_word_search kw text = search_from None kw text"

text \<open>
  \<^verbatim>\<open>int(s)\<close> on an ASCII string: surrounding whitespace is dropped, then an
  optional sign and decimal digits, single underscores allowed between digits.
\<close>

definition digit_val :: "char \<Rightarrow> nat option" where
  "digit_val c = map_of (zip ''0123456789'' [0, 1, 2, 3, 4, 5, 6, 7, 8, 9]) c"

fun digits_val :: "nat \<Rightarrow> bool \<Rightarrow> string \<Rightarrow> nat option" where
  "digits_val acc prev_digit [] = (if prev_digit then Some acc else None)"
| "digits_val acc prev_digit (c # cs) =
     (if c = CHR ''_'' then (if prev_digit \<and> cs \<noteq> [] then digits_val acc False cs else None)
      else (case digit_val c of
              None \<Rightarrow> None
            | Some d \<Rightarrow> digits_val (10 * acc + d) True cs))"

definition ascii_int :: "string \<Rightarrow> int option" where
  "ascii_int s =
     (case strip s of
        [] \<Rightarrow> None
      | c # cs \<Rightarrow>
          if c = CHR ''-'' then map_option (\<lambda>n. - int n) (digits_val 0 False cs)
          else if c = CHR ''+'' then map_option int (digits_val 0 False cs)
          else map_option int (digits_val 0 False (c # cs)))"

definition ascii_builtins :: builtins where
  "ascii_builtins =
     \<lparr>str_lower = ascii_lower, str_to_int = ascii_int, re_word_search = ascii_word_search\<rparr>"

section \<open>Notions used to state the properties\<close>

text \<open>The events that record a readiness check.\<close>

fun is_check :: "event \<Rightarrow> bool" where
  "is_check (CheckRequirements c) = True"
| "is_check ev = False"

text \<open>The events that record a sleep of the monitor.\<close>

fun is_sleep :: "event \<Rightarrow> bool" where
  "is_sleep (Sleep d) = True"
| "is_sleep ev = False"

text \<open>A registry entry with the readiness check of its object replaced by \<open>chk\<close>.\<close>

definition with_check :: "('w \<Rightarrow> (error + bool \<times> string) \<times> 'w) \<Rightarrow> 'w skill \<Rightarrow> 'w skill" where
  "with_check chk s =
     s\<lparr>instance_obj := map_option (\<lambda>i. i\<lparr>check_requirements := chk\<rparr>) (instance_obj s)\<rparr>"

text \<open>
  What \<^verbatim>\<open>run_skill\<close> makes of the outcome of the loop over the matches: the
  message of line 144 when the loop ran out, the outcome itself otherwise.
\<close>

definition conclude ::
  "string option \<Rightarrow> (error + string option) \<times> 'w world \<Rightarrow> (error + string option) \<times> 'w world" where
  "conclude i outcome =
     (case outcome of
        (Inr None, w1) \<Rightarrow> (Inr (Some (no_skill_message i)), w1)
      | other \<Rightarrow> other)"

section \<open>Stub skills and collaborators for concrete runs\<close>

text \<open>
  Stubs in the style of a unit test: a skill with a fixed readiness, a fixed outcome of
  \<^verbatim>\<open>run\<close> and fixed outcomes of its hooks, over a world with no state of its own.
\<close>

definition stub_instance ::
  "string \<Rightarrow> bool \<Rightarrow> (error + string option) \<Rightarrow> (string \<Rightarrow> (error + unit) option)
     \<Rightarrow> unit skill_instance" where
  "stub_instance cls ready outcome hook_outcome =
     \<lparr>class_name = cls,
      check_requirements = (\<lambda>s. (Inr (ready, []), s)),
      run = (\<lambda>args s. (outcome, s)),
      hooks = (\<lambda>h. map_option (\<lambda>r s. (r, s)) (hook_outcome h))\<rparr>"

definition stub_skill :: "string \<Rightarrow> bool \<Rightarrow> (error + string option) \<Rightarrow> unit skill" where
  "stub_skill n ready outcome =
     \<lparr>instance_obj = Some (stub_instance n ready outcome (\<lambda>h. None)),
      name = n, skill_keywords = [''play''], supported_intents = [''music_skill''],
      description = Some ''a stub''\<rparr>"

definition hook_skill :: "string \<Rightarrow> (string \<Rightarrow> (error + unit) option) \<Rightarrow> unit skill" where
  "hook_skill n hook_outcome =
     \<lparr>instance_obj = Some (stub_instance n True (Inr None) hook_outcome),
      name = n, skill_keywords = [], supported_intents = [], description = None\<rparr>"

text \<open>Registries of stubs, all registered for the intent music\_skill.\<close>

definition four_skills :: "unit skill list" where
  "four_skills =
     [stub_skill ''A'' False (Inr (Some ''early'')), stub_skill ''B'' True (Inr None),
      stub_skill ''C'' True (Inr (Some ''done'')), stub_skill ''D'' True (Inr (Some ''late''))]"

definition raising_first :: "unit skill list" where
  "raising_first =
     [stub_skill ''A'' True (Inl (Raised ''boom'')), stub_skill ''B'' True (Inr (Some ''done''))]"

definition empty_first :: "unit skill list" where
  "empty_first =
     [stub_skill ''A'' True (Inr (Some [])), stub_skill ''B'' True (Inr (Some ''done''))]"

text \<open>
  One skill with three hooks, of which the second raises, and a second skill with one
  hook; and three readings of the processor load.
\<close>

definition three_hooks :: "unit skill list" where
  "three_hooks =
     [hook_skill ''S''
        (\<lambda>h. if h = ''check_queue_loop'' then Some (Inr ())
              else if h = ''price_monitor'' then Some (Inl (Raised ''price feed down''))
              else if h = ''weather_monitor'' then Some (Inr ())
              else None),
      hook_skill ''T'' (\<lambda>h. if h = ''reminder_monitor'' then Some (Inr ()) else None)]"

definition calm_cpu :: "unit \<Rightarrow> (error + real) \<times> unit" where
  "calm_cpu s = (Inr 12, s)"

definition busy_cpu :: "unit \<Rightarrow> (error + real) \<times> unit" where
  "busy_cpu s = (Inr 97, s)"

definition failing_cpu :: "unit \<Rightarrow> (error + real) \<times> unit" where
  "failing_cpu s = (Inl (Raised ''psutil failed''), s)"

text \<open>Two stubs that both match the keyword play, and one alone; none is ready.\<close>

definition two_candidates :: "unit skill list" where
  "two_candidates =
     [stub_skill ''A'' False (Inr (Some ''ran A'')), stub_skill ''B'' False (Inr (Some ''ran B''))]"

definition not_ready_single :: "unit skill list" where
  "not_ready_single = [stub_skill ''A'' False (Inr (Some ''ran A''))]"

definition music_args :: run_args where
  "music_args =
     \<lparr>arg_user_input = ''play'', arg_intent = Some ''music_skill'',
      arg_confidence = Some 0.85, arg_entities = None\<rparr>"

definition execute_music :: intent_result where
  "execute_music =
     \<lparr>action = ''execute'', intent = Some ''music_skill'', confidence = Some 0.85,
      candidates = None\<rparr>"

definition stub_io :: "(error + string) \<Rightarrow> string \<Rightarrow> unit arbiter_io" where
  "stub_io answer line =
     \<lparr>run_llm = (\<lambda>prompt s. (answer, s)), console_input = (\<lambda>prompt s. (Inr line, s))\<rparr>"

definition demo_model :: "unit judge_model" where
  "demo_model =
     \<lparr>extract_keywords = (\<lambda>t. if str_in ''hello'' t then [''hello''] else []),
      encode = (\<lambda>t. Inr ()),
      cos_sim_max = (\<lambda>emb i. Inr (if i = ''music_skill'' then 0.72
                                   else if i = ''app_pilot'' then 0.68 else 0.2))\<rparr>"

definition offline_model :: "unit judge_model" where
  "offline_model =
     \<lparr>extract_keywords = (\<lambda>t. []),
      encode = (\<lambda>t. Inl (Raised ''embedding model unavailable'')),
      cos_sim_max = (\<lambda>emb i. Inr 0)\<rparr>"

section \<open>Properties of the intent judge\<close>

lemma split_ws_cur: "cur \<noteq> [] \<Longrightarrow> split_ws cur s \<noteq> []"
proof (induction cur s rule: split_ws.induct)
  case (1 cur s)
  then show ?case by (subst split_ws.simps) auto
qed

lemma lstrip_in_clean: "ws_len pats (lstrip_in pats s) = 0"
proof (induction pats s rule: lstrip_in.induct)
  case (1 pats s)
  then show ?case by (subst lstrip_in.simps) auto
qed

lemma lstrip_in_suffix: "\<exists>v. s = v @ lstrip_in pats s"
proof (induction pats s rule: lstrip_in.induct)
  case (1 pats s)
  show ?case
  proof (cases "ws_len pats s = 0")
    case True
    then show ?thesis by (subst lstrip_in.simps) simp
  next
    case False
    with 1 obtain v where "drop (ws_len pats s) s = v @ lstrip_in pats (drop (ws_len pats s) s)"
      by blast
    then have "s = (take (ws_len pats s) s @ v) @ lstrip_in pats (drop (ws_len pats s) s)"
      by (metis append.assoc append_take_drop_id)
    moreover have "lstrip_in pats s = lstrip_in pats (drop (ws_len pats s) s)"
      using False by (subst lstrip_in.simps) simp
    ultimately have "s = (take (ws_len pats s) s @ v) @ lstrip_in pats s" by simp
    then show ?thesis by (rule exI)
  qed
qed

lemma rstrip_prefix: "\<exists>u. t = rstrip t @ u"
proof -
  obtain v where "rev t = v @ lstrip_in (map rev WHITESPACE) (rev t)"
    using lstrip_in_suffix by blast
  then have "t = rev (lstrip_in (map rev WHITESPACE) (rev t)) @ rev v"
    by (metis rev_append rev_rev_ident)
  then show ?thesis by (auto simp: rstrip_def)
qed

lemma starts_with_append: "starts_with a w \<Longrightarrow> starts_with (a @ u) w"
  by (induction a w rule: starts_with.induct) auto

lemma whitespace_nonempty: "w \<in> set WHITESPACE \<Longrightarrow> w \<noteq> []"
  by (auto simp: WHITESPACE_def)

lemma ws_len_prefix: "ws_len WHITESPACE (a @ u) = 0 \<Longrightarrow> ws_len WHITESPACE a = 0"
proof (rule ccontr)
  assume z: "ws_len WHITESPACE (a @ u) = 0" and nz: "ws_len WHITESPACE a \<noteq> 0"
  from nz obtain w where w: "find (starts_with a) WHITESPACE = Some w"
    by (auto simp: ws_len_def split: option.splits)
  then have "w \<in> set WHITESPACE" and "starts_with a w"
    by (auto simp: find_Some_iff)
  then have "\<exists>x \<in> set WHITESPACE. starts_with (a @ u) x"
    using starts_with_append by blast
  then obtain w' where w': "find (starts_with (a @ u)) WHITESPACE = Some w'"
    by (cases "find (starts_with (a @ u)) WHITESPACE") (auto simp: find_None_iff)
  then have "w' \<in> set WHITESPACE" by (auto simp: find_Some_iff)
  then have "w' \<noteq> []" by (rule whitespace_nonempty)
  with w' z show False by (simp add: ws_len_def)
qed

text \<open>A stripped string does not begin with whitespace, so if not empty it has a word.\<close>

lemma strip_clean: "ws_len WHITESPACE (strip s) = 0"
proof -
  obtain u where "lstrip s = rstrip (lstrip s) @ u" using rstrip_prefix by blast
  moreover have "ws_len WHITESPACE (lstrip s) = 0" by (simp add: lstrip_def lstrip_in_clean)
  ultimately show ?thesis by (metis ws_len_prefix strip_def)
qed

lemma strip_has_word: "strip s \<noteq> [] \<Longrightarrow> py_split (strip s) \<noteq> []"
proof -
  assume ne: "strip s \<noteq> []"
  have "split_ws [] (strip s) = split_ws [hd (strip s)] (tl (strip s))"
    using ne strip_clean [of s] by (subst split_ws.simps) simp
  then show ?thesis by (simp add: py_split_def split_ws_cur)
qed

text \<open>On a stripped, non-empty text the gate never raises.\<close>

lemma gate_total: "strip s \<noteq> [] \<Longrightarrow> \<exists>b. gate m (strip s) = Inr b"
  using strip_has_word [of s] by (auto simp: gate_def Let_def split: list.splits)

lemma arbitrate_invariant:
  assumes "arbitrate scores = Inr r"
  shows "(candidates r \<noteq> None \<longrightarrow> action r = ''clarify'')
       \<and> (\<forall>cs. candidates r = Some cs \<longrightarrow> cs \<noteq> [])
       \<and> (action r = ''execute'' \<or> action r = ''confirm'' \<longrightarrow> confidence r \<noteq> None)"
  using assms
  by (auto simp: arbitrate_def Let_def none_result_def split: list.splits if_splits prod.splits)

lemmas str_eval = ascii_builtins_def ascii_lower_def ascii_lower_char_def strip_def lstrip_def
  rstrip_def lstrip_in.simps ws_len_def WHITESPACE_def py_split_def split_ws.simps

lemma text_play_music: "strip (str_lower ascii_builtins '' Play Music '') = ''play music''"
  and text_chat: "strip (str_lower ascii_builtins ''chat with me'') = ''chat with me''"
  and words_play_music: "py_split ''play music'' = [''play'', ''music'']"
  and words_chat: "py_split ''chat with me'' = [''chat'', ''with'', ''me'']"
  and text_play_music': "strip (str_lower ascii_builtins ''play music'') = ''play music''"
  by (simp_all add: str_eval)

lemma demo_model_run:
  "detect_intent ascii_builtins demo_model '' Play Music '' =
     Inr \<lparr>action = ''clarify'', intent = Some ''music_skill'', confidence = Some 0.72,
          candidates = Some [''music_skill'', ''app_pilot'']\<rparr>"
  by (simp add: detect_intent_def text_play_music words_play_music demo_model_def gate_def
      IMPERATIVE_VERBS_def score_text_def INTENT_NAMES_def arbitrate_def Let_def
      AMBIGUITY_MARGIN_def MEDIUM_CONFIDENCE_def HIGH_CONFIDENCE_def round3_def)

lemma offline_model_run:
  "detect_intent ascii_builtins offline_model ''play music'' =
     Inl (Raised ''embedding model unavailable'')"
  by (simp add: detect_intent_def text_play_music' words_play_music offline_model_def gate_def
      IMPERATIVE_VERBS_def score_text_def Let_def)

text \<open>
  C1. Whenever the top score is at least 0.50 and some other entry of the ranking lies
  within 0.07 of it, the decision is clarify, with the top intent and the candidates
  top intent followed by all close matches in ranking order. Nothing is asked of the
  top score beyond 0.50, so a top score of 0.70 or more is clarified too.
\<close>

theorem ambiguity_takes_priority:
  assumes "0.50 \<le> top_score"
    and "(i, s) \<in> set others"
    and "\<bar>top_score - s\<bar> \<le> 0.07"
  shows "arbitrate ((top_intent, top_score) # others) =
           Inr \<lparr>action = ''clarify'', intent = Some top_intent,
                confidence = Some (round3 top_score),
                candidates = Some (top_intent #
                  map fst (filter (\<lambda>(i, score). \<bar>top_score - score\<bar> \<le> 0.07) others))\<rparr>"
  using assms
  by (auto simp: arbitrate_def Let_def filter_empty_conv AMBIGUITY_MARGIN_def
      MEDIUM_CONFIDENCE_def)

theorem ambiguity_takes_priority_witness:
  "arbitrate [(''A'', 0.72), (''B'', 0.68), (''C'', 0.30)] =
     Inr \<lparr>action = ''clarify'', intent = Some ''A'', confidence = Some (round3 0.72),
          candidates = Some [''A'', ''B'']\<rparr>"
  using ambiguity_takes_priority [of "0.72" "''B''" "0.68" "[(''B'', 0.68), (''C'', 0.30)]" "''A''"]
  by simp

text \<open>
  C2, as the code has it. With no other entry within 0.07 of the top score, the decision
  is execute from 0.70 on, confirm from 0.50 on and none below, and the confidence of an
  execute or confirm decision is the top score rounded to three decimals.
\<close>

theorem confidence_tiers:
  assumes "\<forall>(i, s) \<in> set others. \<not> \<bar>top_score - s\<bar> \<le> 0.07"
  shows "arbitrate ((top_intent, top_score) # others) =
           (if 0.70 \<le> top_score then
              Inr \<lparr>action = ''execute'', intent = Some top_intent,
                   confidence = Some (round3 top_score), candidates = None\<rparr>
            else if 0.50 \<le> top_score then
              Inr \<lparr>action = ''confirm'', intent = Some top_intent,
                   confidence = Some (round3 top_score), candidates = None\<rparr>
            else Inr none_result)"
proof -
  from assms
  have "filter (\<lambda>(i, score). \<bar>top_score - score\<bar> \<le> AMBIGUITY_MARGIN) others = []"
    by (auto simp: filter_empty_conv AMBIGUITY_MARGIN_def)
  then show ?thesis
    by (simp add: arbitrate_def HIGH_CONFIDENCE_def MEDIUM_CONFIDENCE_def)
qed

theorem confidence_tiers_witness:
  "arbitrate [(''A'', 0.85), (''B'', 0.40)] =
     Inr \<lparr>action = ''execute'', intent = Some ''A'', confidence = Some (round3 0.85),
          candidates = None\<rparr>"
  using confidence_tiers [of "[(''B'', 0.40)]" "0.85" "''A''"]
  by simp

text \<open>
  C2, as the claim words it, fails on the confidence: a lone top score of 0.8543 is
  executed with confidence 0.854, not with the score itself.
\<close>

theorem confidence_is_rounded_counterexample:
  "arbitrate [(''music_skill'', 0.8543)] =
     Inr \<lparr>action = ''execute'', intent = Some ''music_skill'', confidence = Some 0.854,
          candidates = None\<rparr>
   \<and> (0.854 :: real) \<noteq> 0.8543"
  by (simp add: arbitrate_def HIGH_CONFIDENCE_def MEDIUM_CONFIDENCE_def round3_def)

text \<open>
  C6, as the code has it. When scoring raises (the embedding of the text, or a
  similarity), \<^verbatim>\<open>detect_intent\<close> has no handler: it answers none only for a text
  that is empty or stopped at the gate, before the model is called, and otherwise the
  exception reaches the caller. No execute, confirm or clarify decision comes out.
\<close>

theorem scoring_failure_propagates:
  assumes "score_text m (strip (str_lower py raw)) = Inl e"
  shows "detect_intent py m raw =
           (if strip (str_lower py raw) = [] \<or> gate m (strip (str_lower py raw)) = Inr False
            then Inr none_result else Inl e)"
  using assms gate_total [of "str_lower py raw" m]
  by (auto simp: detect_intent_def Let_def split: sum.splits bool.splits)

theorem scoring_failure_propagates_witness:
  "detect_intent ascii_builtins offline_model ''chat with me'' = Inr none_result
   \<and> detect_intent ascii_builtins offline_model ''play music'' =
       Inl (Raised ''embedding model unavailable'')"
proof -
  have s1: "score_text offline_model (strip (str_lower ascii_builtins ''chat with me''))
              = Inl (Raised ''embedding model unavailable'')"
    and s2: "score_text offline_model (strip (str_lower ascii_builtins ''play music''))
              = Inl (Raised ''embedding model unavailable'')"
    by (simp_all add: score_text_def offline_model_def)
  have g1: "gate offline_model ''chat with me'' = Inr False"
    and g2: "gate offline_model ''play music'' = Inr True"
    by (simp_all add: gate_def offline_model_def words_chat words_play_music
        IMPERATIVE_VERBS_def)
  show ?thesis
    using scoring_failure_propagates [OF s1] scoring_failure_propagates [OF s2] g1 g2
    by (simp add: text_chat text_play_music')
qed

text \<open>
  C6, as the claim words it, fails: with the embedding model raising, an input that
  passes the verb gate gets the exception, not the none decision.
\<close>

theorem scoring_failure_counterexample:
  "detect_intent ascii_builtins offline_model ''play music'' =
     Inl (Raised ''embedding model unavailable'')
   \<and> detect_intent ascii_builtins offline_model ''play music'' \<noteq> Inr none_result"
  by (simp add: offline_model_run)

text \<open>
  C8. Every result of \<^verbatim>\<open>detect_intent\<close> has candidates only when its action is
  clarify, and then a non-empty list; and it has a confidence whenever its action is
  execute or confirm.
\<close>

theorem detect_intent_invariant:
  assumes "detect_intent py m raw = Inr r"
  shows "(candidates r \<noteq> None \<longrightarrow> action r = ''clarify'')
       \<and> (\<forall>cs. candidates r = Some cs \<longrightarrow> cs \<noteq> [])
       \<and> (action r = ''execute'' \<or> action r = ''confirm'' \<longrightarrow> confidence r \<noteq> None)"
proof -
  let ?text = "strip (str_lower py raw)"
  have none: "(candidates none_result \<noteq> None \<longrightarrow> action none_result = ''clarify'')
       \<and> (\<forall>cs. candidates none_result = Some cs \<longrightarrow> cs \<noteq> [])
       \<and> (action none_result = ''execute'' \<or> action none_result = ''confirm''
            \<longrightarrow> confidence none_result \<noteq> None)"
    by (simp add: none_result_def)
  show ?thesis
  proof (cases "?text = []")
    case True
    with assms have "r = none_result" by (simp add: detect_intent_def)
    with none show ?thesis by simp
  next
    case False
    then obtain b where g: "gate m ?text = Inr b" using gate_total [of "str_lower py raw" m]
      by blast
    show ?thesis
    proof (cases b)
      case False
      with g \<open>?text \<noteq> []\<close> assms have "r = none_result" by (simp add: detect_intent_def)
      with none show ?thesis by simp
    next
      case True
      show ?thesis
      proof (cases "score_text m ?text")
        case (Inl e)
        with True g \<open>?text \<noteq> []\<close> assms show ?thesis by (simp add: detect_intent_def)
      next
        case (Inr scores)
        with True g \<open>?text \<noteq> []\<close> assms
        have "arbitrate (sort_key (\<lambda>x. - snd x) scores) = Inr r"
          by (simp add: detect_intent_def)
        then show ?thesis by (rule arbitrate_invariant)
      qed
    qed
  qed
qed

theorem detect_intent_invariant_witness:
  "detect_intent ascii_builtins demo_model '' Play Music '' =
     Inr \<lparr>action = ''clarify'', intent = Some ''music_skill'', confidence = Some 0.72,
          candidates = Some [''music_skill'', ''app_pilot'']\<rparr>
   \<and> action \<lparr>action = ''clarify'', intent = Some ''music_skill'', confidence = Some 0.72,
          candidates = Some [''music_skill'', ''app_pilot'']\<rparr> = ''clarify''"
  using detect_intent_invariant [OF demo_model_run] demo_model_run
  by simp

section \<open>Properties of the dispatcher\<close>

lemma try_matches_append:
  "try_matches pre args w = (Inr None, w1) \<Longrightarrow>
   try_matches (pre @ rest) args w = try_matches rest args w1"
proof (induction pre arbitrary: w)
  case Nil
  then show ?case by simp
next
  case (Cons inst pre)
  then show ?case
    by (auto split: prod.splits sum.splits if_splits option.splits)
qed

lemma try_matches_ready:
  assumes "check_requirements i s1 = (Inr (True, msg), s2)"
  shows "try_matches (Some i # post) args (s1, tr1) =
           (let tr2 = tr1 @ [CheckRequirements (class_name i), RunSkill (class_name i)]
            in case run i args s2 of
                 (Inl e, s3) \<Rightarrow> (Inl e, (s3, tr2))
               | (Inr None, s3) \<Rightarrow> try_matches post args (s3, tr2)
               | (Inr (Some r), s3) \<Rightarrow> (Inr (Some r), (s3, tr2)))"
  using assms
  by (simp add: call_check_requirements_def call_run_def
      split: prod.splits sum.splits option.splits)

lemma run_skill_execute:
  assumes "action ir = ''execute''"
    and "map instance_obj (filter (\<lambda>s. in_opt (intent ir) (supported_intents s)) skills) = ms"
    and "ms \<noteq> []"
  shows "run_skill py skills ui (Some ir) ents w =
          conclude (intent ir)
            (try_matches ms
               \<lparr>arg_user_input = ui, arg_intent = intent ir,
                arg_confidence = Some (case confidence ir of None \<Rightarrow> 0 | Some c \<Rightarrow> c),
                arg_entities = ents\<rparr> w)"
  using assms by (simp add: run_skill_def conclude_def Let_def)

lemmas stub_defs = stub_skill_def stub_instance_def in_opt_def execute_music_def music_args_def
  call_check_requirements_def call_run_def

text \<open>
  C5, as the code has it. On an execute decision the skills registered for the intent
  are tried in registration order. Let the loop have passed over the matches \<open>pre\<close>
  without a result, and let \<open>i\<close> be the next match. If \<open>i\<close> is not ready, its
  \<^verbatim>\<open>run\<close> is not called and the loop goes on with the later matches. If \<open>i\<close> is
  ready and \<^verbatim>\<open>run\<close> returns \<^verbatim>\<open>None\<close>, the loop goes on as well. If \<open>i\<close> is
  ready and \<^verbatim>\<open>run\<close> returns a string, empty or not, that string is returned at once
  and no later match is checked or run.
\<close>

theorem dispatch_first_result:
  assumes "action ir = ''execute''"
    and "map instance_obj (filter (\<lambda>s. in_opt (intent ir) (supported_intents s)) skills)
           = pre @ Some i # post"
    and "args = \<lparr>arg_user_input = ui, arg_intent = intent ir,
                 arg_confidence = Some (case confidence ir of None \<Rightarrow> 0 | Some c \<Rightarrow> c),
                 arg_entities = ents\<rparr>"
    and "try_matches pre args w = (Inr None, (s1, tr1))"
  shows "(check_requirements i s1 = (Inr (False, msg), s2) \<longrightarrow>
            run_skill py skills ui (Some ir) ents w =
              conclude (intent ir)
                (try_matches post args (s2, tr1 @ [CheckRequirements (class_name i)])))
       \<and> (check_requirements i s1 = (Inr (True, msg), s2) \<and> run i args s2 = (Inr None, s3) \<longrightarrow>
            run_skill py skills ui (Some ir) ents w =
              conclude (intent ir)
                (try_matches post args
                   (s3, tr1 @ [CheckRequirements (class_name i), RunSkill (class_name i)])))
       \<and> (check_requirements i s1 = (Inr (True, msg), s2)
            \<and> run i args s2 = (Inr (Some result), s3) \<longrightarrow>
            run_skill py skills ui (Some ir) ents w =
              (Inr (Some result),
               (s3, tr1 @ [CheckRequirements (class_name i), RunSkill (class_name i)])))"
proof -
  have rs: "run_skill py skills ui (Some ir) ents w =
              conclude (intent ir) (try_matches (Some i # post) args (s1, tr1))"
    using assms(1,2,3) try_matches_append [OF assms(4), of "Some i # post"]
    by (simp add: run_skill_execute [where ms = "pre @ Some i # post"])
  show ?thesis
    by (auto simp: rs conclude_def call_check_requirements_def call_run_def)
qed

theorem dispatch_first_result_witness:
  "run_skill ascii_builtins four_skills ''play'' (Some execute_music) None ((), []) =
     (Inr (Some ''done''),
      ((), [CheckRequirements ''A'', CheckRequirements ''B'', RunSkill ''B'',
            CheckRequirements ''C'', RunSkill ''C'']))"
proof -
  let ?i = "stub_instance ''C'' True (Inr (Some ''done'')) (\<lambda>h. None)"
  have h1: "action execute_music = ''execute''" by (simp add: execute_music_def)
  have h2: "map instance_obj
              (filter (\<lambda>s. in_opt (intent execute_music) (supported_intents s)) four_skills)
            = [instance_obj (stub_skill ''A'' False (Inr (Some ''early''))),
               instance_obj (stub_skill ''B'' True (Inr None))]
              @ Some ?i # [instance_obj (stub_skill ''D'' True (Inr (Some ''late'')))]"
    by (simp add: four_skills_def stub_defs)
  have h3: "music_args =
              \<lparr>arg_user_input = ''play'', arg_intent = intent execute_music,
               arg_confidence = Some (case confidence execute_music of None \<Rightarrow> 0 | Some c \<Rightarrow> c),
               arg_entities = None\<rparr>"
    by (simp add: stub_defs)
  have h4: "try_matches [instance_obj (stub_skill ''A'' False (Inr (Some ''early''))),
                         instance_obj (stub_skill ''B'' True (Inr None))] music_args ((), [])
            = (Inr None, ((), [CheckRequirements ''A'', CheckRequirements ''B'', RunSkill ''B'']))"
    by (simp add: stub_defs)
  have h5: "check_requirements ?i () = (Inr (True, []), ())"
    and h6: "run ?i music_args () = (Inr (Some ''done''), ())"
    and h7: "class_name ?i = ''C''"
    by (simp_all add: stub_instance_def)
  show ?thesis
    using dispatch_first_result
            [OF h1 h2 h3 h4, where py = ascii_builtins and msg = "[]" and ?s2.0 = "()"
               and ?s3.0 = "()" and result = "''done''"]
          h5 h6 h7
    by simp
qed

text \<open>
  C5, as the claim words it, fails on the empty result: the test is
  \<^verbatim>\<open>result is not None\<close>, so a ready skill that returns the empty string ends the
  dispatch with that string, and the next ready skill is never tried.
\<close>

theorem empty_result_returned_counterexample:
  "run_skill ascii_builtins empty_first ''play'' (Some execute_music) None ((), []) =
     (Inr (Some []), ((), [CheckRequirements ''A'', RunSkill ''A'']))"
  by (simp add: run_skill_def empty_first_def stub_defs Let_def)

text \<open>
  C3, as the code has it. \<^verbatim>\<open>run_skill\<close> has no handler: when the \<^verbatim>\<open>run\<close> of a
  ready skill raises, the exception leaves \<^verbatim>\<open>run_skill\<close>, and no later match is
  checked or run.
\<close>

theorem run_exception_propagates:
  assumes "action ir = ''execute''"
    and "map instance_obj (filter (\<lambda>s. in_opt (intent ir) (supported_intents s)) skills)
           = pre @ Some i # post"
    and "args = \<lparr>arg_user_input = ui, arg_intent = intent ir,
                 arg_confidence = Some (case confidence ir of None \<Rightarrow> 0 | Some c \<Rightarrow> c),
                 arg_entities = ents\<rparr>"
    and "try_matches pre args w = (Inr None, (s1, tr1))"
    and "check_requirements i s1 = (Inr (True, msg), s2)"
    and "run i args s2 = (Inl e, s3)"
  shows "run_skill py skills ui (Some ir) ents w =
           (Inl e, (s3, tr1 @ [CheckRequirements (class_name i), RunSkill (class_name i)]))"
proof -
  have "try_matches (pre @ Some i # post) args w = try_matches (Some i # post) args (s1, tr1)"
    using assms(4) by (rule try_matches_append)
  also have "\<dots> = (Inl e,
            (s3, tr1 @ [CheckRequirements (class_name i), RunSkill (class_name i)]))"
    by (subst try_matches_ready [OF assms(5)]) (simp add: assms(6))
  finally show ?thesis
    using assms(1,2,3)
    by (simp add: run_skill_execute [where ms = "pre @ Some i # post"] conclude_def)
qed

theorem run_exception_propagates_witness:
  "run_skill ascii_builtins raising_first ''play'' (Some execute_music) None ((), []) =
     (Inl (Raised ''boom''), ((), [CheckRequirements ''A'', RunSkill ''A'']))"
proof -
  let ?i = "stub_instance ''A'' True (Inl (Raised ''boom'')) (\<lambda>h. None)"
  have h1: "action execute_music = ''execute''" by (simp add: execute_music_def)
  have h2: "map instance_obj
              (filter (\<lambda>s. in_opt (intent execute_music) (supported_intents s)) raising_first)
            = [] @ Some ?i # [instance_obj (stub_skill ''B'' True (Inr (Some ''done'')))]"
    by (simp add: raising_first_def stub_defs)
  have h3: "music_args =
              \<lparr>arg_user_input = ''play'', arg_intent = intent execute_music,
               arg_confidence = Some (case confidence execute_music of None \<Rightarrow> 0 | Some c \<Rightarrow> c),
               arg_entities = None\<rparr>"
    by (simp add: stub_defs)
  have h4: "try_matches [] music_args ((), []) = (Inr None, ((), []))"
    by simp
  have h5: "check_requirements ?i () = (Inr (True, []), ())"
    and h6: "run ?i music_args () = (Inl (Raised ''boom''), ())"
    and h7: "class_name ?i = ''A''"
    by (simp_all add: stub_instance_def)
  show ?thesis
    using run_exception_propagates [OF h1 h2 h3 h4 h5 h6] h7 by simp
qed

text \<open>
  C3, as the claim words it, fails: of two ready skills where the first raises, the
  second is never tried and the caller gets the exception.
\<close>

theorem dispatcher_fallback_counterexample:
  "run_skill ascii_builtins raising_first ''play'' (Some execute_music) None ((), []) =
     (Inl (Raised ''boom''), ((), [CheckRequirements ''A'', RunSkill ''A'']))"
  by (simp add: run_skill_def raising_first_def stub_defs Let_def)

section \<open>Properties of the background monitor\<close>

lemma run_hooks_append:
  "run_hooks i hs1 w = (Inr (), w1) \<Longrightarrow> run_hooks i (hs1 @ hs2) w = run_hooks i hs2 w1"
proof (induction hs1 arbitrary: w)
  case Nil
  then show ?case by simp
next
  case (Cons h hs1)
  then show ?case
    by (auto split: option.splits prod.splits sum.splits)
qed

lemma tick_skills_append:
  "tick_skills pre w = (Inr (), w1) \<Longrightarrow> tick_skills (pre @ rest) w = tick_skills rest w1"
proof (induction pre arbitrary: w)
  case Nil
  then show ?case by simp
next
  case (Cons s pre)
  then show ?case
    by (auto split: option.splits prod.splits sum.splits)
qed

lemma monitor_returns_iff:
  "fst (background_monitor flags cpu_percent skills w) = Returned \<longleftrightarrow> False \<in> set flags"
  by (induction flags arbitrary: w) auto

lemmas monitor_defs = monitor_cycle_def three_hooks_def hook_skill_def stub_instance_def
  HOOK_NAMES_def call_hook_def emit_def calm_cpu_def busy_cpu_def failing_cpu_def

text \<open>
  C4, as the code has it. The \<^verbatim>\<open>try\<close> encloses the whole cycle, not each hook.
  When, under a load of at most 90, the skills \<open>pre\<close> and the hooks \<open>hs1\<close> of the
  next skill have run and its hook \<open>h\<close> raises, the exception is caught and printed
  once, the cycle ends there with a sleep of 10 seconds, and the loop goes on with the
  next cycle. The hooks \<open>hs2\<close> of that skill and the skills \<open>post\<close> are not invoked
  in that cycle.
\<close>

theorem hook_exception_ends_cycle:
  assumes "cpu_percent s0 = (Inr load, s1)"
    and "\<not> 90 < load"
    and "skills = pre @ sk # post"
    and "instance_obj sk = Some i"
    and "tick_skills pre (s1, tr0) = (Inr (), w2)"
    and "HOOK_NAMES = hs1 @ h # hs2"
    and "run_hooks i hs1 w2 = (Inr (), (s3, tr3))"
    and "hooks i h = Some fn"
    and "fn s3 = (Inl e, s4)"
  shows "monitor_cycle cpu_percent skills (s0, tr0) =
           (s4, tr3 @ [CallHook (class_name i) h, PrintMonitorError e, Sleep 10])
       \<and> background_monitor (True # flags) cpu_percent skills (s0, tr0) =
           background_monitor flags cpu_percent skills
             (s4, tr3 @ [CallHook (class_name i) h, PrintMonitorError e, Sleep 10])"
proof -
  have "run_hooks i HOOK_NAMES w2 = run_hooks i (h # hs2) (s3, tr3)"
    using run_hooks_append [OF assms(7), of "h # hs2"] assms(6) by simp
  also have "\<dots> = (Inl e, (s4, tr3 @ [CallHook (class_name i) h]))"
    using assms(8,9) by (simp add: call_hook_def)
  finally have hk: "run_hooks i HOOK_NAMES w2 = (Inl e, (s4, tr3 @ [CallHook (class_name i) h]))" .
  have "tick_skills skills (s1, tr0) = tick_skills (sk # post) w2"
    using tick_skills_append [OF assms(5), of "sk # post"] assms(3) by simp
  also have "\<dots> = (Inl e, (s4, tr3 @ [CallHook (class_name i) h]))"
    using assms(4) hk by simp
  finally have "monitor_cycle cpu_percent skills (s0, tr0) =
           (s4, tr3 @ [CallHook (class_name i) h, PrintMonitorError e, Sleep 10])"
    using assms(1,2) by (simp add: monitor_cycle_def emit_def)
  then show ?thesis by simp
qed

theorem hook_exception_ends_cycle_witness:
  "monitor_cycle calm_cpu three_hooks ((), [Sleep 5]) =
     ((), [Sleep 5, CallHook ''S'' ''check_queue_loop'', CallHook ''S'' ''price_monitor'',
           PrintMonitorError (Raised ''price feed down''), Sleep 10])"
proof -
  let ?f = "\<lambda>h. if h = ''check_queue_loop'' then Some (Inr ())
                else if h = ''price_monitor'' then Some (Inl (Raised ''price feed down''))
                else if h = ''weather_monitor'' then Some (Inr ())
                else None"
  let ?i = "stub_instance ''S'' True (Inr None) ?f"
  let ?t = "hook_skill ''T'' (\<lambda>h. if h = ''reminder_monitor'' then Some (Inr ()) else None)"
  have h1: "calm_cpu () = (Inr 12, ())" by (simp add: calm_cpu_def)
  have h2: "\<not> 90 < (12 :: real)" by simp
  have h3: "three_hooks = [] @ hook_skill ''S'' ?f # [?t]" by (simp add: three_hooks_def)
  have h4: "instance_obj (hook_skill ''S'' ?f) = Some ?i" by (simp add: hook_skill_def)
  have h5: "tick_skills [] ((), [Sleep 5]) = (Inr (), ((), [Sleep 5]))" by simp
  have h6: "HOOK_NAMES = [''check_queue_loop''] @ ''price_monitor''
              # [''weather_monitor'', ''reminder_monitor'']"
    by (simp add: HOOK_NAMES_def)
  have h7: "run_hooks ?i [''check_queue_loop''] ((), [Sleep 5]) =
              (Inr (), ((), [Sleep 5, CallHook ''S'' ''check_queue_loop'']))"
    by (simp add: stub_instance_def call_hook_def)
  have h8: "hooks ?i ''price_monitor'' = Some (\<lambda>s. (Inl (Raised ''price feed down''), s))"
    by (simp add: stub_instance_def)
  have h10: "class_name ?i = ''S''" by (simp add: stub_instance_def)
  show ?thesis
    using hook_exception_ends_cycle
            [where cpu_percent = calm_cpu and ?s0.0 = "()"
               and fn = "\<lambda>s. (Inl (Raised ''price feed down''), s)" and ?s3.0 = "()"
               and e = "Raised ''price feed down''" and ?s4.0 = "()",
             OF h1 h2 h3 h4 h5 h6 h7 h8]
          h10
    by simp
qed

text \<open>
  C4, as the claim words it, fails: of the three hooks of a skill, the second raising,
  the third is not called in that cycle, nor is the hook of the next skill.
\<close>

theorem hook_isolation_counterexample:
  "snd (monitor_cycle calm_cpu three_hooks ((), [])) =
     [CallHook ''S'' ''check_queue_loop'', CallHook ''S'' ''price_monitor'',
      PrintMonitorError (Raised ''price feed down''), Sleep 10]
   \<and> CallHook ''S'' ''weather_monitor'' \<notin> set (snd (monitor_cycle calm_cpu three_hooks ((), [])))
   \<and> CallHook ''T'' ''reminder_monitor'' \<notin> set (snd (monitor_cycle calm_cpu three_hooks ((), [])))"
  by (simp add: monitor_defs)

lemma run_hooks_sleeps:
  "filter is_sleep (snd (snd (run_hooks i hs w))) = filter is_sleep (snd w)"
proof (induction hs arbitrary: w)
  case Nil
  then show ?case by simp
next
  case (Cons h hs)
  show ?case
  proof (cases "hooks i h")
    case None
    with Cons show ?thesis by simp
  next
    case (Some fn)
    obtain r s' where f: "fn (fst w) = (r, s')" by (cases "fn (fst w)")
    show ?thesis
      using Some f Cons [of "(s', snd w @ [CallHook (class_name i) h])"]
      by (cases r) (simp_all add: call_hook_def)
  qed
qed

lemma tick_skills_sleeps:
  "filter is_sleep (snd (snd (tick_skills skills w))) = filter is_sleep (snd w)"
proof (induction skills arbitrary: w)
  case Nil
  then show ?case by simp
next
  case (Cons s skills)
  show ?case
  proof (cases "instance_obj s")
    case None
    with Cons show ?thesis by simp
  next
    case (Some i)
    obtain r w1 where h: "run_hooks i HOOK_NAMES w = (r, w1)"
      by (cases "run_hooks i HOOK_NAMES w")
    have "filter is_sleep (snd w1) = filter is_sleep (snd w)"
      using run_hooks_sleeps [of i HOOK_NAMES w] h by simp
    then show ?thesis
      using Some h Cons [of w1] by (cases r) simp_all
  qed
qed

lemma monitor_cycle_sleeps:
  "length (filter is_sleep (snd (monitor_cycle cpu_percent skills w))) =
     Suc (length (filter is_sleep (snd w)))"
proof -
  obtain r s1 where c: "cpu_percent (fst w) = (r, s1)" by (cases "cpu_percent (fst w)")
  show ?thesis
  proof (cases r)
    case (Inl e)
    with c show ?thesis by (simp add: monitor_cycle_def emit_def)
  next
    case (Inr load)
    obtain t w2 where t: "tick_skills skills (s1, snd w) = (t, w2)"
      by (cases "tick_skills skills (s1, snd w)")
    have "filter is_sleep (snd w2) = filter is_sleep (snd w)"
      using tick_skills_sleeps [of skills "(s1, snd w)"] t by simp
    then show ?thesis
      using c Inr t by (cases t) (simp_all add: monitor_cycle_def emit_def)
  qed
qed

lemma monitor_runs_cycles:
  "background_monitor (replicate n True @ flags) cpu_percent skills w =
     background_monitor flags cpu_percent skills ((monitor_cycle cpu_percent skills ^^ n) w)"
  by (induction n arbitrary: w) (simp_all add: funpow_swap1)

lemma cycles_sleeps:
  "length (filter is_sleep (snd ((monitor_cycle cpu_percent skills ^^ n) w))) =
     length (filter is_sleep (snd w)) + n"
  by (induction n) (simp_all add: monitor_cycle_sleeps)

text \<open>
  C9. A loop test that reads the flag as cleared makes the function return, and nothing
  else does. After a test that reads the flag as set, a cycle runs and the loop goes on
  from the state that cycle leaves, whatever happened in it: when the load reading or a
  hook raises, the error is printed and the monitor sleeps 10 seconds; under a load
  above 90 no hook is called and the monitor sleeps 10 seconds; otherwise it sleeps 5
  seconds. So after \<open>n\<close> tests that read the flag as set, \<open>n\<close> cycles have run, each
  from the state the one before left, with \<open>n\<close> sleeps, and the loop is still running.
\<close>

theorem monitor_only_stops_on_flag:
  "background_monitor (False # flags) cpu_percent skills w = (Returned, w)
   \<and> (cpu_percent (fst w) = (Inl e, s1) \<longrightarrow>
        background_monitor (True # flags) cpu_percent skills w =
          background_monitor flags cpu_percent skills
            (s1, snd w @ [PrintMonitorError e, Sleep 10]))
   \<and> (cpu_percent (fst w) = (Inr load, s1) \<and> 90 < load \<longrightarrow>
        background_monitor (True # flags) cpu_percent skills w =
          background_monitor flags cpu_percent skills (s1, snd w @ [Sleep 10]))
   \<and> (cpu_percent (fst w) = (Inr load, s1) \<and> \<not> 90 < load
        \<and> tick_skills skills (s1, snd w) = (Inl e, (s2, tr2)) \<longrightarrow>
        background_monitor (True # flags) cpu_percent skills w =
          background_monitor flags cpu_percent skills
            (s2, tr2 @ [PrintMonitorError e, Sleep 10]))
   \<and> (cpu_percent (fst w) = (Inr load, s1) \<and> \<not> 90 < load
        \<and> tick_skills skills (s1, snd w) = (Inr (), (s2, tr2)) \<longrightarrow>
        background_monitor (True # flags) cpu_percent skills w =
          background_monitor flags cpu_percent skills (s2, tr2 @ [Sleep 5]))
   \<and> (fst (background_monitor flags cpu_percent skills w) = Returned \<longleftrightarrow> False \<in> set flags)
   \<and> background_monitor (replicate n True) cpu_percent skills w =
        (Looping, (monitor_cycle cpu_percent skills ^^ n) w)
   \<and> background_monitor (replicate n True @ False # flags) cpu_percent skills w =
        (Returned, (monitor_cycle cpu_percent skills ^^ n) w)
   \<and> length (filter is_sleep (snd ((monitor_cycle cpu_percent skills ^^ n) w))) =
        length (filter is_sleep (snd w)) + n"
proof -
  have looping: "background_monitor (replicate n True) cpu_percent skills w =
        (Looping, (monitor_cycle cpu_percent skills ^^ n) w)"
    using monitor_runs_cycles [of n "[]" cpu_percent skills w] by simp
  have returned: "background_monitor (replicate n True @ False # flags) cpu_percent skills w =
        (Returned, (monitor_cycle cpu_percent skills ^^ n) w)"
    using monitor_runs_cycles [of n "False # flags" cpu_percent skills w] by simp
  show ?thesis
    unfolding looping returned
    by (simp add: monitor_returns_iff cycles_sleeps monitor_cycle_def emit_def)
qed

theorem monitor_only_stops_on_flag_witness:
  "background_monitor [True, True, False, True] calm_cpu three_hooks ((), []) =
     (Returned,
      ((), [CallHook ''S'' ''check_queue_loop'', CallHook ''S'' ''price_monitor'',
            PrintMonitorError (Raised ''price feed down''), Sleep 10,
            CallHook ''S'' ''check_queue_loop'', CallHook ''S'' ''price_monitor'',
            PrintMonitorError (Raised ''price feed down''), Sleep 10]))
   \<and> background_monitor [True, False] failing_cpu three_hooks ((), []) =
       (Returned, ((), [PrintMonitorError (Raised ''psutil failed''), Sleep 10]))
   \<and> background_monitor [True, False] busy_cpu three_hooks ((), []) =
       (Returned, ((), [Sleep 10]))
   \<and> background_monitor [True, False] calm_cpu (tl three_hooks) ((), []) =
       (Returned, ((), [CallHook ''T'' ''reminder_monitor'', Sleep 5]))
   \<and> fst (background_monitor [True, True, True] calm_cpu three_hooks ((), [])) \<noteq> Returned"
proof -
  let ?tr1 = "[CallHook ''S'' ''check_queue_loop'', CallHook ''S'' ''price_monitor'']"
  let ?tr2 = "?tr1 @ [PrintMonitorError (Raised ''price feed down''), Sleep 10]"
  have t1: "tick_skills three_hooks ((), []) = (Inl (Raised ''price feed down''), ((), ?tr1))"
    and t2: "tick_skills three_hooks ((), ?tr2) =
               (Inl (Raised ''price feed down''), ((), ?tr2 @ ?tr1))"
    and t3: "tick_skills (tl three_hooks) ((), []) =
               (Inr (), ((), [CallHook ''T'' ''reminder_monitor'']))"
    by (simp_all add: three_hooks_def hook_skill_def stub_instance_def HOOK_NAMES_def
        call_hook_def)
  note th = monitor_only_stops_on_flag
  show ?thesis
    using th [of "[True]" calm_cpu three_hooks "((), ?tr2 @ ?tr2)"]
          th [of "[True, False, True]" calm_cpu three_hooks "((), [])"
                 "Raised ''price feed down''" "()" 12 "()" ?tr1]
          th [of "[False, True]" calm_cpu three_hooks "((), ?tr2)"
                 "Raised ''price feed down''" "()" 12 "()" "?tr2 @ ?tr1"]
          th [of "[]" failing_cpu three_hooks "((), [PrintMonitorError (Raised ''psutil failed''),
                 Sleep 10])"]
          th [of "[False]" failing_cpu three_hooks "((), [])" "Raised ''psutil failed''" "()"]
          th [of "[]" busy_cpu three_hooks "((), [Sleep 10])"]
          th [of "[False]" busy_cpu three_hooks "((), [])" _ "()" 97]
          th [of "[]" calm_cpu "tl three_hooks" "((), [CallHook ''T'' ''reminder_monitor'', Sleep 5])"]
          th [of "[False]" calm_cpu "tl three_hooks" "((), [])" _ "()" 12 "()"
                 "[CallHook ''T'' ''reminder_monitor'']"]
          th [of "[True, True, True]" calm_cpu three_hooks "((), [])"]
          t1 t2 t3
    by (simp add: calm_cpu_def busy_cpu_def failing_cpu_def)
qed

section \<open>Properties of the fallback arbitrator\<close>

lemma chk_call_run:
  "filter is_check (snd (snd (call_run inst args w))) = filter is_check (snd w)"
  by (simp add: call_run_def split: option.splits prod.splits)

lemma chk_run_selected:
  "filter is_check (snd (snd (run_selected s ui w))) = filter is_check (snd w)"
proof -
  let ?args = "\<lparr>arg_user_input = ui, arg_intent = None, arg_confidence = None,
                arg_entities = None\<rparr>"
  show ?thesis
    using chk_call_run [of "instance_obj s" ?args w]
    by (auto simp: run_selected_def emit_def split: prod.splits sum.splits)
qed

lemma chk_ask_user:
  "filter is_check (snd (snd (ask_user py io cands ui w))) = filter is_check (snd w)"
proof (cases "console_input io ''Enter the number of the desired skill: '' (fst w)")
  case (Pair r s1)
  show ?thesis
  proof (cases r)
    case (Inl e)
    with Pair show ?thesis by (simp add: ask_user_def call_input_def emit_def)
  next
    case (Inr line)
    let ?w1 = "(s1, snd w @ [PrintChoices, ReadInput])"
    have ci: "call_input io ''Enter the number of the desired skill: '' (emit PrintChoices w)
                = (Inr line, ?w1)"
      using Pair Inr by (simp add: call_input_def emit_def)
    show ?thesis
    proof (cases "str_to_int py (strip line)")
      case None
      with ci show ?thesis by (simp add: ask_user_def emit_def)
    next
      case (Some n)
      show ?thesis
        using ci Some chk_run_selected [of "cands ! nat (n - 1)" ui ?w1]
        by (simp add: ask_user_def Let_def)
    qed
  qed
qed

text \<open>What \<^verbatim>\<open>select_skill\<close> does with two candidates or more.\<close>

lemma select_skill_multi:
  assumes "keyword_candidates py skills ui = cands" and "2 \<le> length cands"
  shows "select_skill py io skills ui w =
     (case describe_all cands of
        Inl e \<Rightarrow> (Inl e, w)
      | Inr ds \<Rightarrow>
          (case run_llm io (arbiter_prompt ui ds) (fst w) of
             (answer, s1) \<Rightarrow>
               (let decision = (case answer of Inl e \<Rightarrow> [] | Inr d \<Rightarrow> strip d);
                    w1 = (s1, snd w @ [CallLLM]
                              @ (case answer of Inl e \<Rightarrow> [PrintLLMFailed e] | Inr d \<Rightarrow> []))
                in case find (\<lambda>s. str_in (str_lower py (name s)) (str_lower py decision))
                          cands of
                     Some s \<Rightarrow> run_selected s ui w1
                   | None \<Rightarrow> ask_user py io cands ui w1)))"
proof -
  from assms(2) obtain c1 c2 rest where cs: "cands = c1 # c2 # rest"
    by (cases cands; cases "tl cands") auto
  show ?thesis
    using assms(1) unfolding cs
    by (simp add: select_skill_def call_llm_def emit_def Let_def
        split: sum.splits prod.splits del: describe_all.simps find.simps)
qed

lemma chk_select_skill:
  "filter is_check (snd (snd (select_skill py io skills ui w))) = filter is_check (snd w)"
proof (cases "2 \<le> length (keyword_candidates py skills ui)")
  case True
  show ?thesis
    by (simp add: select_skill_multi [OF refl True] Let_def chk_run_selected chk_ask_user
        split: sum.splits prod.splits option.splits)
next
  case False
  then consider "keyword_candidates py skills ui = []"
    | c where "keyword_candidates py skills ui = [c]"
    by (cases "keyword_candidates py skills ui"; cases "tl (keyword_candidates py skills ui)")
      auto
  then show ?thesis
    by cases (simp_all add: select_skill_def chk_call_run)
qed

lemma kc_with:
  "keyword_candidates py (map (with_check chk) skills) ui =
     map (with_check chk) (keyword_candidates py skills ui)"
  by (simp add: keyword_candidates_def with_check_def filter_map comp_def)

lemma describe_all_with: "describe_all (map (with_check chk) cs) = describe_all cs"
  by (induction cs) (auto simp: with_check_def split: option.splits sum.splits)

lemma call_run_with:
  "call_run (instance_obj (with_check chk s)) args w = call_run (instance_obj s) args w"
  by (cases "instance_obj s") (simp_all add: with_check_def call_run_def)

lemma run_selected_with: "run_selected (with_check chk s) ui w = run_selected s ui w"
  by (simp add: run_selected_def call_run_with)

lemma ask_user_with:
  "ask_user py io (map (with_check chk) cs) ui w = ask_user py io cs ui w"
  by (auto simp: ask_user_def Let_def run_selected_with
      split: prod.splits sum.splits option.splits)

lemma find_with:
  "find (\<lambda>s. str_in (f (name s)) d) (map (with_check chk) cs) =
     map_option (with_check chk) (find (\<lambda>s. str_in (f (name s)) d) cs)"
  by (induction cs) (auto simp: with_check_def)

lemma select_skill_with:
  "select_skill py io (map (with_check chk) skills) ui w = select_skill py io skills ui w"
proof (cases "2 \<le> length (keyword_candidates py skills ui)")
  case True
  then have True': "2 \<le> length (keyword_candidates py (map (with_check chk) skills) ui)"
    by (simp add: kc_with)
  show ?thesis
    by (simp add: select_skill_multi [OF refl True] select_skill_multi [OF refl True']
        kc_with describe_all_with find_with ask_user_with run_selected_with Let_def
        split: sum.splits prod.splits option.splits)
next
  case False
  then consider "keyword_candidates py skills ui = []"
    | c where "keyword_candidates py skills ui = [c]"
    by (cases "keyword_candidates py skills ui"; cases "tl (keyword_candidates py skills ui)")
      auto
  then show ?thesis
    by cases (simp_all add: select_skill_def kc_with call_run_with)
qed

text \<open>Step 7 on a skill with an object: \<^verbatim>\<open>run\<close> is called, and its exception caught.\<close>

lemma run_selected_runs:
  assumes "instance_obj c = Some i"
    and "run i \<lparr>arg_user_input = ui, arg_intent = None, arg_confidence = None,
                arg_entities = None\<rparr> s = (r, s')"
  shows "run_selected c ui (s, tr) =
           ((case r of Inl e \<Rightarrow> Inr None | Inr x \<Rightarrow> Inr x),
            (s', tr @ [RunSkill (class_name i)]
                 @ (case r of Inl e \<Rightarrow> [PrintSkillFailed e] | Inr x \<Rightarrow> [])))"
  using assms by (cases r) (simp_all add: run_selected_def call_run_def emit_def)

lemmas arbiter_defs = keyword_candidates_def stub_skill_def stub_instance_def stub_io_def
  two_candidates_def not_ready_single_def strip_chars_def Let_def

text \<open>
  C10. \<^verbatim>\<open>select_skill\<close> never calls \<^verbatim>\<open>check_requirements\<close>: it records no
  readiness check, and its outcome does not change when the readiness check of every
  skill is replaced by any other. On each of its paths it calls \<^verbatim>\<open>run\<close> directly:
  on the single keyword candidate; on the candidate the classifier's answer names; and
  on the candidate the number read from the console picks.
\<close>

theorem select_skill_ignores_readiness:
  "filter is_check (snd (snd (select_skill py io skills ui w))) = filter is_check (snd w)
   \<and> select_skill py io (map (with_check chk) skills) ui w = select_skill py io skills ui w
   \<and> (keyword_candidates py skills ui = [c] \<longrightarrow>
        select_skill py io skills ui w =
          call_run (instance_obj c)
            \<lparr>arg_user_input = ui, arg_intent = None, arg_confidence = None,
             arg_entities = None\<rparr> w)
   \<and> (keyword_candidates py skills ui = cands \<and> 2 \<le> length cands
        \<and> describe_all cands = Inr ds
        \<and> run_llm io (arbiter_prompt ui ds) (fst w) = (Inr d, s1)
        \<and> find (\<lambda>s. str_in (str_lower py (name s)) (str_lower py (strip d))) cands = Some c
        \<and> instance_obj c = Some i
        \<and> run i \<lparr>arg_user_input = ui, arg_intent = None, arg_confidence = None,
                  arg_entities = None\<rparr> s1 = (r, s2) \<longrightarrow>
        select_skill py io skills ui w =
          ((case r of Inl e \<Rightarrow> Inr None | Inr x \<Rightarrow> Inr x),
           (s2, snd w @ [CallLLM, RunSkill (class_name i)]
                @ (case r of Inl e \<Rightarrow> [PrintSkillFailed e] | Inr x \<Rightarrow> []))))
   \<and> (keyword_candidates py skills ui = cands \<and> 2 \<le> length cands
        \<and> describe_all cands = Inr ds
        \<and> run_llm io (arbiter_prompt ui ds) (fst w) = (answer, s1)
        \<and> find (\<lambda>s. str_in (str_lower py (name s))
                     (str_lower py (case answer of Inl e \<Rightarrow> [] | Inr d \<Rightarrow> strip d)))
             cands = None
        \<and> console_input io ''Enter the number of the desired skill: '' s1 = (Inr line, s2)
        \<and> str_to_int py (strip line) = Some n \<and> 1 \<le> n \<and> n \<le> int (length cands)
        \<and> instance_obj (cands ! nat (n - 1)) = Some i
        \<and> run i \<lparr>arg_user_input = ui, arg_intent = None, arg_confidence = None,
                  arg_entities = None\<rparr> s2 = (r, s3) \<longrightarrow>
        select_skill py io skills ui w =
          ((case r of Inl e \<Rightarrow> Inr None | Inr x \<Rightarrow> Inr x),
           (s3, snd w @ [CallLLM]
                @ (case answer of Inl e \<Rightarrow> [PrintLLMFailed e] | Inr d \<Rightarrow> [])
                @ [PrintChoices, ReadInput, RunSkill (class_name i)]
                @ (case r of Inl e \<Rightarrow> [PrintSkillFailed e] | Inr x \<Rightarrow> []))))"
proof -
  let ?args = "\<lparr>arg_user_input = ui, arg_intent = None, arg_confidence = None,
                arg_entities = None\<rparr>"
  have single: "keyword_candidates py skills ui = [c] \<Longrightarrow>
        select_skill py io skills ui w = call_run (instance_obj c) ?args w"
    by (simp add: select_skill_def)
  have named: "select_skill py io skills ui w =
          ((case r of Inl e \<Rightarrow> Inr None | Inr x \<Rightarrow> Inr x),
           (s2, snd w @ [CallLLM, RunSkill (class_name i)]
                @ (case r of Inl e \<Rightarrow> [PrintSkillFailed e] | Inr x \<Rightarrow> [])))"
    if k: "keyword_candidates py skills ui = cands" and n: "2 \<le> length cands"
      and d: "describe_all cands = Inr ds"
      and l: "run_llm io (arbiter_prompt ui ds) (fst w) = (Inr d, s1)"
      and f: "find (\<lambda>s. str_in (str_lower py (name s)) (str_lower py (strip d))) cands = Some c"
      and i: "instance_obj c = Some i" and r: "run i ?args s1 = (r, s2)"
  proof -
    have "select_skill py io skills ui w = run_selected c ui (s1, snd w @ [CallLLM])"
      using d l f by (simp add: select_skill_multi [OF k n])
    then show ?thesis by (simp add: run_selected_runs [OF i r])
  qed
  have picked: "select_skill py io skills ui w =
          ((case r of Inl e \<Rightarrow> Inr None | Inr x \<Rightarrow> Inr x),
           (s3, snd w @ [CallLLM]
                @ (case answer of Inl e \<Rightarrow> [PrintLLMFailed e] | Inr d \<Rightarrow> [])
                @ [PrintChoices, ReadInput, RunSkill (class_name i)]
                @ (case r of Inl e \<Rightarrow> [PrintSkillFailed e] | Inr x \<Rightarrow> [])))"
    if k: "keyword_candidates py skills ui = cands" and n: "2 \<le> length cands"
      and d: "describe_all cands = Inr ds"
      and l: "run_llm io (arbiter_prompt ui ds) (fst w) = (answer, s1)"
      and f: "find (\<lambda>s. str_in (str_lower py (name s))
                     (str_lower py (case answer of Inl e \<Rightarrow> [] | Inr d \<Rightarrow> strip d)))
                cands = None"
      and c: "console_input io ''Enter the number of the desired skill: '' s1 = (Inr line, s2)"
      and v: "str_to_int py (strip line) = Some n" "1 \<le> n" "n \<le> int (length cands)"
      and i: "instance_obj (cands ! nat (n - 1)) = Some i" and r: "run i ?args s2 = (r, s3)"
  proof -
    let ?w1 = "(s1, snd w @ [CallLLM]
                    @ (case answer of Inl e \<Rightarrow> [PrintLLMFailed e] | Inr d \<Rightarrow> []))"
    have "select_skill py io skills ui w = ask_user py io cands ui ?w1"
      using d l f by (simp add: select_skill_multi [OF k n] Let_def)
    also have "\<dots> = run_selected (cands ! nat (n - 1)) ui
                       (s2, snd ?w1 @ [PrintChoices, ReadInput])"
      using c v by (simp add: ask_user_def call_input_def emit_def Let_def)
    finally show ?thesis by (simp add: run_selected_runs [OF i r])
  qed
  show ?thesis
    using chk_select_skill select_skill_with single named picked by blast
qed

theorem select_skill_ignores_readiness_witness:
  "fst (check_requirements (stub_instance ''A'' False (Inr (Some ''ran A'')) (\<lambda>h. None)) ())
     = Inr (False, [])
   \<and> fst (check_requirements (stub_instance ''B'' False (Inr (Some ''ran B'')) (\<lambda>h. None)) ())
     = Inr (False, [])
   \<and> select_skill ascii_builtins (stub_io (Inr ''A'') ''1'') not_ready_single ''Play!'' ((), []) =
       (Inr (Some ''ran A''), ((), [RunSkill ''A'']))
   \<and> select_skill ascii_builtins (stub_io (Inr '' B '') ''1'') two_candidates ''play'' ((), []) =
       (Inr (Some ''ran B''), ((), [CallLLM, RunSkill ''B'']))
   \<and> select_skill ascii_builtins (stub_io (Inl (Raised ''llm down'')) ''2'') two_candidates
       ''play'' ((), []) =
       (Inr (Some ''ran B''),
        ((), [CallLLM, PrintLLMFailed (Raised ''llm down''), PrintChoices, ReadInput,
              RunSkill ''B'']))"
proof -
  let ?ds = "[''- A: a stub'', ''- B: a stub'']"
  let ?a = "stub_skill ''A'' False (Inr (Some ''ran A''))"
  let ?b = "stub_skill ''B'' False (Inr (Some ''ran B''))"
  let ?ib = "stub_instance ''B'' False (Inr (Some ''ran B'')) (\<lambda>h. None)"
  let ?args = "\<lparr>arg_user_input = ''play'', arg_intent = None, arg_confidence = None,
                arg_entities = None\<rparr>"
  have k1: "keyword_candidates ascii_builtins not_ready_single ''Play!'' = [?a]"
    and k2: "keyword_candidates ascii_builtins two_candidates ''play'' = two_candidates"
    by (simp_all add: arbiter_defs str_eval)
  have n: "2 \<le> length two_candidates" by (simp add: two_candidates_def)
  have d: "describe_all two_candidates = Inr ?ds"
    by (simp add: two_candidates_def stub_skill_def)
  have l1: "run_llm (stub_io (Inr '' B '') ''1'') (arbiter_prompt ''play'' ?ds) (fst ((), []))
              = (Inr '' B '', ())"
    and l2: "run_llm (stub_io (Inl (Raised ''llm down'')) ''2'') (arbiter_prompt ''play'' ?ds)
               (fst ((), [])) = (Inl (Raised ''llm down''), ())"
    by (simp_all add: stub_io_def)
  have f1: "find (\<lambda>s. str_in (str_lower ascii_builtins (name s))
                      (str_lower ascii_builtins (strip '' B ''))) two_candidates = Some ?b"
    and f2: "find (\<lambda>s. str_in (str_lower ascii_builtins (name s))
                 (str_lower ascii_builtins
                    (case (Inl (Raised ''llm down'') :: error + string) of
                       Inl e \<Rightarrow> [] | Inr d \<Rightarrow> strip d))) two_candidates = None"
    by (simp_all add: arbiter_defs str_eval)
  have c2: "console_input (stub_io (Inl (Raised ''llm down'')) ''2'')
              ''Enter the number of the desired skill: '' () = (Inr ''2'', ())"
    by (simp add: stub_io_def)
  have p2: "str_to_int ascii_builtins (strip ''2'') = Some 2"
    by (simp add: ascii_int_def digit_val_def str_eval)
  have v: "(1 :: int) \<le> 2" "2 \<le> int (length two_candidates)"
    by (simp_all add: two_candidates_def)
  have ib: "instance_obj ?b = Some ?ib" by (simp add: stub_skill_def)
  have ib2: "instance_obj (two_candidates ! nat (2 - 1)) = Some ?ib"
    by (simp add: two_candidates_def stub_skill_def)
  have r: "run ?ib ?args () = (Inr (Some ''ran B''), ())"
    and cn: "class_name ?ib = ''B''"
    by (simp_all add: stub_instance_def)
  note th = select_skill_ignores_readiness
  show ?thesis
    using th [where py = ascii_builtins and io = "stub_io (Inr ''A'') ''1''"
                and skills = not_ready_single and ui = "''Play!''" and w = "((), [])"
                and c = ?a]
          th [where py = ascii_builtins and io = "stub_io (Inr '' B '') ''1''"
                and skills = two_candidates and ui = "''play''" and w = "((), [])"
                and cands = two_candidates and ds = ?ds and d = "'' B ''" and ?s1.0 = "()"
                and c = ?b and i = ?ib and r = "Inr (Some ''ran B'')" and ?s2.0 = "()"]
          th [where py = ascii_builtins and io = "stub_io (Inl (Raised ''llm down'')) ''2''"
                and skills = two_candidates and ui = "''play''" and w = "((), [])"
                and cands = two_candidates and ds = ?ds
                and answer = "Inl (Raised ''llm down'')" and ?s1.0 = "()"
                and line = "''2''" and ?s2.0 = "()" and n = 2 and i = ?ib
                and r = "Inr (Some ''ran B'')" and ?s3.0 = "()"]
          k1 k2 n d l1 l2 f1 f2 c2 p2 v ib ib2 r cn
    by (simp add: stub_skill_def stub_instance_def call_run_def)
qed

text \<open>
  C7. When two or more candidates match, the classifier's call raises or its answer
  names no candidate, and the line read from the console is one that \<^verbatim>\<open>int\<close>
  rejects or a number outside 1 to the number of candidates, \<^verbatim>\<open>select_skill\<close>
  returns \<^verbatim>\<open>None\<close>. The calls it has made are the classifier's and one read of the
  console, with their prints: no skill was run, and the console was not read again.
\<close>

theorem invalid_selection_aborts:
  assumes "keyword_candidates py skills ui = cands"
    and "2 \<le> length cands"
    and "describe_all cands = Inr ds"
    and "run_llm io (arbiter_prompt ui ds) (fst w) = (answer, s1)"
    and "find (\<lambda>s. str_in (str_lower py (name s))
                  (str_lower py (case answer of Inl e \<Rightarrow> [] | Inr d \<Rightarrow> strip d)))
           cands = None"
    and "console_input io ''Enter the number of the desired skill: '' s1 = (Inr line, s2)"
    and "str_to_int py (strip line) = None
         \<or> (\<exists>n. str_to_int py (strip line) = Some n \<and> (n < 1 \<or> int (length cands) < n))"
  shows "select_skill py io skills ui w =
           (Inr None,
            (s2, snd w @ [CallLLM]
                 @ (case answer of Inl e \<Rightarrow> [PrintLLMFailed e] | Inr d \<Rightarrow> [])
                 @ [PrintChoices, ReadInput]
                 @ (if str_to_int py (strip line) = None then [PrintInvalidChoice] else [])))"
proof -
  let ?w1 = "(s1, snd w @ [CallLLM]
                  @ (case answer of Inl e \<Rightarrow> [PrintLLMFailed e] | Inr d \<Rightarrow> []))"
  have "select_skill py io skills ui w = ask_user py io cands ui ?w1"
    using assms(3,4,5) by (simp add: select_skill_multi [OF assms(1,2)] Let_def)
  also have "\<dots> = (Inr None,
            (s2, snd ?w1 @ [PrintChoices, ReadInput]
                 @ (if str_to_int py (strip line) = None then [PrintInvalidChoice] else [])))"
    using assms(6,7) by (auto simp: ask_user_def call_input_def emit_def Let_def)
  finally show ?thesis by simp
qed

theorem invalid_selection_aborts_witness:
  "select_skill ascii_builtins (stub_io (Inl (Raised ''llm down'')) ''seven'') two_candidates
     ''play'' ((), []) =
     (Inr None, ((), [CallLLM, PrintLLMFailed (Raised ''llm down''), PrintChoices, ReadInput,
                      PrintInvalidChoice]))
   \<and> select_skill ascii_builtins (stub_io (Inr ''nothing'') ''7'') two_candidates ''play''
       ((), []) =
     (Inr None, ((), [CallLLM, PrintChoices, ReadInput]))"
proof -
  let ?ds = "[''- A: a stub'', ''- B: a stub'']"
  have k: "keyword_candidates ascii_builtins two_candidates ''play'' = two_candidates"
    by (simp add: arbiter_defs str_eval)
  have n: "2 \<le> length two_candidates" by (simp add: two_candidates_def)
  have d: "describe_all two_candidates = Inr ?ds"
    by (simp add: two_candidates_def stub_skill_def)
  have l1: "run_llm (stub_io (Inl (Raised ''llm down'')) ''seven'') (arbiter_prompt ''play'' ?ds)
              (fst ((), [])) = (Inl (Raised ''llm down''), ())"
    and l2: "run_llm (stub_io (Inr ''nothing'') ''7'') (arbiter_prompt ''play'' ?ds)
              (fst ((), [])) = (Inr ''nothing'', ())"
    by (simp_all add: stub_io_def)
  have f1: "find (\<lambda>s. str_in (str_lower ascii_builtins (name s))
                 (str_lower ascii_builtins
                    (case (Inl (Raised ''llm down'') :: error + string) of
                       Inl e \<Rightarrow> [] | Inr d \<Rightarrow> strip d))) two_candidates = None"
    and f2: "find (\<lambda>s. str_in (str_lower ascii_builtins (name s))
                 (str_lower ascii_builtins
                    (case (Inr ''nothing'' :: error + string) of
                       Inl e \<Rightarrow> [] | Inr d \<Rightarrow> strip d))) two_candidates = None"
    by (simp_all add: arbiter_defs str_eval)
  have c1: "console_input (stub_io (Inl (Raised ''llm down'')) ''seven'')
              ''Enter the number of the desired skill: '' () = (Inr ''seven'', ())"
    and c2: "console_input (stub_io (Inr ''nothing'') ''7'')
              ''Enter the number of the desired skill: '' () = (Inr ''7'', ())"
    by (simp_all add: stub_io_def)
  have p1: "str_to_int ascii_builtins (strip ''seven'') = None"
    and p2: "str_to_int ascii_builtins (strip ''7'') = Some 7"
    by (simp_all add: ascii_int_def digit_val_def str_eval)
  have i1: "str_to_int ascii_builtins (strip ''seven'') = None
            \<or> (\<exists>n. str_to_int ascii_builtins (strip ''seven'') = Some n
                    \<and> (n < 1 \<or> int (length two_candidates) < n))"
    using p1 by simp
  have i2: "str_to_int ascii_builtins (strip ''7'') = None
            \<or> (\<exists>n. str_to_int ascii_builtins (strip ''7'') = Some n
                    \<and> (n < 1 \<or> int (length two_candidates) < n))"
    using p2 by (simp add: two_candidates_def)
  show ?thesis
    using invalid_selection_aborts [OF k n d l1 f1 c1 i1]
          invalid_selection_aborts [OF k n d l2 f2 c2 i2] p1 p2
    by simp
qed

end
